theory Spec2Isabelle
  imports Complex_Main
begin

section \<open>Geometry\<close>

text \<open>
  Python floats are modelled as exact reals: every statement below is about the
  arithmetic structure of the code, not about rounding.  A point is a triple, as the
  three-element lists \<^verbatim>\<open>[x, y, z]\<close> of the source.
\<close>

type_synonym vec3 = "real \<times> real \<times> real"

abbreviation origin3 :: vec3 where
  "origin3 \<equiv> (0, 0, 0)"

text \<open>\<^verbatim>\<open>v[i]\<close> and \<^verbatim>\<open>v[i] = x\<close> for the indices 0, 1, 2 the source uses.\<close>

fun vec_nth :: "vec3 \<Rightarrow> int \<Rightarrow> real" where
  "vec_nth (x, y, z) i = (if i = 0 then x else if i = 1 then y else z)"

fun vec_upd :: "vec3 \<Rightarrow> int \<Rightarrow> real \<Rightarrow> vec3" where
  "vec_upd (x, y, z) i v = (if i = 0 then (v, y, z) else if i = 1 then (x, v, z) else (x, y, v))"

text \<open>The \<^verbatim>\<open>vtk.vtkMath\<close> helpers, each returning what the VTK routine writes to its output.\<close>

fun vtkMath_MultiplyScalar :: "vec3 \<Rightarrow> real \<Rightarrow> vec3" where
  "vtkMath_MultiplyScalar (x, y, z) s = (x * s, y * s, z * s)"

fun vtkMath_Add :: "vec3 \<Rightarrow> vec3 \<Rightarrow> vec3" where
  "vtkMath_Add (a, b, c) (x, y, z) = (a + x, b + y, c + z)"

fun vtkMath_Subtract :: "vec3 \<Rightarrow> vec3 \<Rightarrow> vec3" where
  "vtkMath_Subtract (a, b, c) (x, y, z) = (a - x, b - y, c - z)"

fun vtkMath_Dot :: "vec3 \<Rightarrow> vec3 \<Rightarrow> real" where
  "vtkMath_Dot (a, b, c) (x, y, z) = a * x + b * y + c * z"

definition vtkMath_Distance2BetweenPoints :: "vec3 \<Rightarrow> vec3 \<Rightarrow> real" where
  "vtkMath_Distance2BetweenPoints p q =
     (let d = vtkMath_Subtract p q in vtkMath_Dot d d)"

section \<open>The scene\<close>

text \<open>
  The MRML scene of the host is a list of nodes; the identity of a node (its ID) is its
  position in the list.  Nodes are appended by \<^verbatim>\<open>AddNewNodeByClass\<close> and never removed by
  the code modelled here.  Display nodes are left out: nothing below reads them.
\<close>

datatype node_class =
    vtkMRMLModelNode
  | vtkMRMLMarkupsFiducialNode
  | vtkMRMLMarkupsCurveNode
  | vtkMRMLMarkupsClosedCurveNode
  | vtkMRMLMarkupsPlaneNode
  | vtkMRMLDynamicModelerNode
  | vtkMRMLTextNode
  | vtkMRMLScriptedModuleNode

text \<open>
  \<^verbatim>\<open>node.IsA(cls)\<close>: the class itself or a superclass.  Among the classes used by the
  code the only inheritance is that a closed curve is a curve.
\<close>

fun IsA :: "node_class \<Rightarrow> node_class \<Rightarrow> bool" where
  "IsA c d = (c = d \<or> (c = vtkMRMLMarkupsClosedCurveNode \<and> d = vtkMRMLMarkupsCurveNode))"

datatype curve_type = Linear | ShortestDistanceOnSurface

datatype tool_name = vtkSlicerDynamicModelerBoundaryCutTool

record mrml_node =
  className :: node_class
  nodeName :: string
  attributes :: "string \<rightharpoonup> string"
  references :: "string \<Rightarrow> nat list"
  controlPoints :: "vec3 list"
  curvePoints :: "vec3 list option"
  closestPointOnPlane :: "vec3 \<Rightarrow> vec3"
  curveType :: curve_type
  toolName :: "tool_name option"
  continuousUpdate :: bool
  polyData :: "vec3 list option"

text \<open>
  \<^item> \<open>references\<close>: for each reference role the referenced node IDs, in the order added;
  \<^item> \<open>curvePoints\<close>: \<^verbatim>\<open>GetCurve().GetPoints()\<close> of a curve node, the discretised curve
    computed by the host (\<open>None\<close> when the host returns no point set);
  \<^item> \<open>closestPointOnPlane\<close>: \<^verbatim>\<open>GetClosestPointOnPlaneWorld\<close> of a plane node, a
    capability of the host;
  \<^item> \<open>polyData\<close>: the mesh of a model node (\<open>None\<close> when it has none), as its points.
\<close>

definition new_node :: "node_class \<Rightarrow> string \<Rightarrow> mrml_node" where
  "new_node cls name =
     \<lparr> className = cls, nodeName = name, attributes = Map.empty,
       references = (\<lambda>_. []), controlPoints = [], curvePoints = None,
       closestPointOnPlane = (\<lambda>p. p), curveType = Linear, toolName = None,
       continuousUpdate = False, polyData = None \<rparr>"

datatype py_error = NameError | TypeError | AttributeError | IndexError | SyntaxError
  | MRMLNodeNotFoundException

record world =
  scene :: "mrml_node list"
  parameterNode :: "mrml_node option"
  updatingSeedNodes :: bool
  origPointLocator :: "(vec3 \<Rightarrow> vec3) option"
  solverRuns :: "nat list"

text \<open>
  \<^item> \<open>parameterNode\<close>: \<^verbatim>\<open>self.parameterNode\<close> of the logic, of which only the references
    are used;
  \<^item> \<open>origPointLocator\<close>: the nearest mesh point of the point locator, \<open>None\<close> while
    the locator has no data set;
  \<^item> \<open>solverRuns\<close>: the tool nodes handed to the external
    \<^verbatim>\<open>RunDynamicModelerTool\<close>, in order.
\<close>

definition update_node :: "nat \<Rightarrow> (mrml_node \<Rightarrow> mrml_node) \<Rightarrow> world \<Rightarrow> world" where
  "update_node i f W = W\<lparr>scene := (scene W)[i := f (scene W ! i)]\<rparr>"

subsection \<open>Node references\<close>

definition AddNodeReferenceID :: "string \<Rightarrow> nat \<Rightarrow> mrml_node \<Rightarrow> mrml_node" where
  "AddNodeReferenceID role i n = n\<lparr>references := (references n)(role := references n role @ [i])\<rparr>"

definition SetNodeReferenceID :: "string \<Rightarrow> nat \<Rightarrow> mrml_node \<Rightarrow> mrml_node" where
  "SetNodeReferenceID role i n =
     n\<lparr>references := (references n)(role := i # tl (references n role))\<rparr>"

definition RemoveNodeReferenceIDs :: "string \<Rightarrow> mrml_node \<Rightarrow> mrml_node" where
  "RemoveNodeReferenceIDs role n = n\<lparr>references := (references n)(role := [])\<rparr>"

text \<open>
  \<^verbatim>\<open>GetNthNodeReference\<close> for every n below \<^verbatim>\<open>GetNumberOfNodeReferences\<close>: the node of
  each recorded ID, \<open>None\<close> (Python's \<^verbatim>\<open>None\<close>) for an ID the scene does not hold.
\<close>

definition GetNodeReferences :: "mrml_node list \<Rightarrow> mrml_node \<Rightarrow> string \<Rightarrow> nat option list" where
  "GetNodeReferences sc n role =
     map (\<lambda>i. if i < length sc then Some i else None) (references n role)"

definition GetNodeReference :: "mrml_node list \<Rightarrow> mrml_node \<Rightarrow> string \<Rightarrow> nat option" where
  "GetNodeReference sc n role =
     (case GetNodeReferences sc n role of [] \<Rightarrow> None | r # _ \<Rightarrow> r)"

section \<open>Relative seeds\<close>

abbreviation ANTERIOR_OF_RELATIVE_ROLE :: string where
  "ANTERIOR_OF_RELATIVE_ROLE \<equiv> ''anterior_of''"
abbreviation POSTERIOR_OF_RELATIVE_ROLE :: string where
  "POSTERIOR_OF_RELATIVE_ROLE \<equiv> ''posterior_of''"
abbreviation SUPERIOR_OF_RELATIVE_ROLE :: string where
  "SUPERIOR_OF_RELATIVE_ROLE \<equiv> ''superior_of''"
abbreviation INFERIOR_OF_RELATIVE_ROLE :: string where
  "INFERIOR_OF_RELATIVE_ROLE \<equiv> ''inferior_of''"
abbreviation MEDIAL_OF_RELATIVE_ROLE :: string where
  "MEDIAL_OF_RELATIVE_ROLE \<equiv> ''medial_of''"
abbreviation LATERAL_OF_RELATIVE_ROLE :: string where
  "LATERAL_OF_RELATIVE_ROLE \<equiv> ''lateral_of''"

definition RELATIVE_SEED_ROLES :: "string list" where
  "RELATIVE_SEED_ROLES =
     [ANTERIOR_OF_RELATIVE_ROLE, POSTERIOR_OF_RELATIVE_ROLE, SUPERIOR_OF_RELATIVE_ROLE,
      INFERIOR_OF_RELATIVE_ROLE, MEDIAL_OF_RELATIVE_ROLE, LATERAL_OF_RELATIVE_ROLE]"

abbreviation RELATIVE_NODE_REFERENCE :: string where
  "RELATIVE_NODE_REFERENCE \<equiv> ''Relative''"

abbreviation MANUALLY_PLACED_ATTRIBUTE_NAME :: string where
  "MANUALLY_PLACED_ATTRIBUTE_NAME \<equiv> ''NeuroSegmentParcellation.ManuallyPlaced''"

text \<open>The reference role under which a seed records its constraints of a role.\<close>

definition referenceRole :: "string \<Rightarrow> string" where
  "referenceRole relativeRole = RELATIVE_NODE_REFERENCE @ ''.'' @ relativeRole"

definition getRelativeNodesOfRole :: "world \<Rightarrow> nat option \<Rightarrow> string \<Rightarrow> nat option list" where
  "getRelativeNodesOfRole W seedNode relativeRole =
     (case seedNode of
        None \<Rightarrow> []
      | Some s \<Rightarrow>
          GetNodeReferences (scene W) (scene W ! s) (referenceRole relativeRole))"

subsection \<open>initializeSeedNode\<close>

text \<open>The inner loop over the control points of one relative node.\<close>

fun averagePoint_loop :: "vec3 list \<Rightarrow> real \<Rightarrow> vec3 \<Rightarrow> vec3" where
  "averagePoint_loop [] inverseNumberOfPoints averagePoint = averagePoint"
| "averagePoint_loop (point # ps) inverseNumberOfPoints averagePoint =
     averagePoint_loop ps inverseNumberOfPoints
       (vtkMath_Add (vtkMath_MultiplyScalar point inverseNumberOfPoints) averagePoint)"

text \<open>
  The outer loop over the relative nodes.  A reference that resolves to no node is
  \<^verbatim>\<open>None\<close>, on which \<^verbatim>\<open>GetNumberOfControlPoints\<close> raises.
\<close>

fun seedPoint_loop ::
  "mrml_node list \<Rightarrow> nat option list \<Rightarrow> real \<Rightarrow> vec3 \<Rightarrow> py_error + vec3" where
  "seedPoint_loop sc [] inverseNumberOfRelativeNodes seedPoint = Inr seedPoint"
| "seedPoint_loop sc (None # rs) inverseNumberOfRelativeNodes seedPoint = Inl AttributeError"
| "seedPoint_loop sc (Some r # rs) inverseNumberOfRelativeNodes seedPoint =
     (let numberOfPoints = length (controlPoints (sc ! r)) in
      if numberOfPoints = 0 then seedPoint_loop sc rs inverseNumberOfRelativeNodes seedPoint
      else
        let averagePoint =
              averagePoint_loop (controlPoints (sc ! r)) (1 / real numberOfPoints) origin3
        in seedPoint_loop sc rs inverseNumberOfRelativeNodes
             (vtkMath_Add (vtkMath_MultiplyScalar averagePoint inverseNumberOfRelativeNodes)
                seedPoint))"

definition AddControlPoint :: "vec3 \<Rightarrow> mrml_node \<Rightarrow> mrml_node" where
  "AddControlPoint p n = n\<lparr>controlPoints := controlPoints n @ [p]\<rparr>"

definition initializeSeedNode :: "world \<Rightarrow> nat \<Rightarrow> py_error option \<times> world" where
  "initializeSeedNode W seedNode =
     (let relativeNodes =
            concat (map (getRelativeNodesOfRole W (Some seedNode)) RELATIVE_SEED_ROLES);
          numberOfRelativeNodes = length relativeNodes
      in if numberOfRelativeNodes = 0 then (None, W)
         else
           case seedPoint_loop (scene W) relativeNodes (1 / real numberOfRelativeNodes) origin3 of
             Inl e \<Rightarrow> (Some e, W)
           | Inr seedPoint \<Rightarrow> (None, update_node seedNode (AddControlPoint seedPoint) W))"

subsection \<open>The reference point of a constraint\<close>

abbreviation VTK_TOL :: real where
  "VTK_TOL \<equiv> 1 / 100000"

definition VTK_DOUBLE_MAX :: real where
  "VTK_DOUBLE_MAX = 17976931348623157 * 10 ^ 292"

text \<open>
  \<^verbatim>\<open>vtk.vtkLine.DistanceToLine(x, p1, p2, t, closestPoint)\<close> is a routine of the VTK
  library, not of this repository.  It is modelled from VTK's documented behaviour: the
  squared distance of \<open>x\<close> to the finite line from \<open>p1\<close> to \<open>p2\<close>, and the closest
  point, which lies within the finite line (an end point when the parametric coordinate
  falls outside [0, 1] or the line is numerically degenerate).  The pair returned is
  (squared distance, closest point); the code never reads the parametric coordinate.
\<close>

definition vtkLine_DistanceToLine :: "vec3 \<Rightarrow> vec3 \<Rightarrow> vec3 \<Rightarrow> real \<times> vec3" where
  "vtkLine_DistanceToLine x p1 p2 =
     (let p21 = vtkMath_Subtract p2 p1;
          num = vtkMath_Dot p21 (vtkMath_Subtract x p1);
          denom = vtkMath_Dot p21 p21;
          tolerance = \<bar>VTK_TOL * num\<bar>;
          closest =
            (if denom < tolerance then p1
             else if denom \<le> 0 \<or> num / denom < 0 then p1
             else if num / denom > 1 then p2
             else vtkMath_Add p1 (vtkMath_MultiplyScalar p21 (num / denom)))
      in (vtkMath_Distance2BetweenPoints closest x, closest))"

text \<open>Lines 1249 to 1274: the search direction of a role, \<open>None\<close> for an invalid role.\<close>

definition directionVector_of :: "string \<Rightarrow> vec3 \<Rightarrow> vec3 option" where
  "directionVector_of relativeRole seedPoint =
     (let lateralDirection = (if vec_nth seedPoint 0 < 0 then (-1, 0, 0) else (1, 0, 0));
          medialDirection = (if vec_nth seedPoint 0 < 0 then (1, 0, 0) else (-1, 0, 0));
          anteriorDirection = (0, 1, 0);
          posteriorDirection = (0, -1, 0);
          superiorDirection = (0, 0, 1);
          inferiorDirection = (0, 0, -1)
      in if relativeRole = LATERAL_OF_RELATIVE_ROLE then Some medialDirection
         else if relativeRole = MEDIAL_OF_RELATIVE_ROLE then Some lateralDirection
         else if relativeRole = ANTERIOR_OF_RELATIVE_ROLE then Some posteriorDirection
         else if relativeRole = POSTERIOR_OF_RELATIVE_ROLE then Some anteriorDirection
         else if relativeRole = SUPERIOR_OF_RELATIVE_ROLE then Some inferiorDirection
         else if relativeRole = INFERIOR_OF_RELATIVE_ROLE then Some superiorDirection
         else None)"

definition seedLineEnd_of :: "vec3 \<Rightarrow> vec3 \<Rightarrow> vec3" where
  "seedLineEnd_of seedPoint directionVector =
     vtkMath_Add seedPoint (vtkMath_MultiplyScalar directionVector 10000)"

text \<open>The loop over the points of the discretised curve.\<close>

fun closestPoint_loop :: "vec3 list \<Rightarrow> vec3 \<Rightarrow> vec3 \<Rightarrow> real \<Rightarrow> vec3 \<Rightarrow> vec3" where
  "closestPoint_loop [] seedPoint seedLineEnd minimumDistance closestPoint = closestPoint"
| "closestPoint_loop (curvePoint # ps) seedPoint seedLineEnd minimumDistance closestPoint =
     (let (distance, pointOnLine) = vtkLine_DistanceToLine curvePoint seedPoint seedLineEnd in
      if distance < minimumDistance
      then closestPoint_loop ps seedPoint seedLineEnd distance pointOnLine
      else closestPoint_loop ps seedPoint seedLineEnd minimumDistance closestPoint)"

text \<open>
  The result is the final value of the output argument \<^verbatim>\<open>closestPoint\<close>.  An invalid
  role returns before the curve points are read; a curve without a point set raises at
  \<^verbatim>\<open>curvePoints.GetNumberOfPoints()\<close>.
\<close>

definition getClosestPointOnCurveAlongLine ::
  "vec3 \<Rightarrow> mrml_node \<Rightarrow> string \<Rightarrow> vec3 \<Rightarrow> py_error + vec3" where
  "getClosestPointOnCurveAlongLine seedPoint curveNode relativeRole closestPoint =
     (case directionVector_of relativeRole seedPoint of
        None \<Rightarrow> Inr closestPoint
      | Some directionVector \<Rightarrow>
          (case curvePoints curveNode of
             None \<Rightarrow> Inl AttributeError
           | Some pts \<Rightarrow>
               Inr (closestPoint_loop pts seedPoint
                      (seedLineEnd_of seedPoint directionVector) VTK_DOUBLE_MAX closestPoint)))"

text \<open>Lines 1217 to 1221 of \<^verbatim>\<open>updateRelativeSeedPosition\<close>: the reference point.\<close>

definition referencePoint :: "mrml_node \<Rightarrow> string \<Rightarrow> vec3 \<Rightarrow> py_error + vec3" where
  "referencePoint relativeNode relativeRole seedPoint =
     (if IsA (className relativeNode) vtkMRMLMarkupsCurveNode
      then getClosestPointOnCurveAlongLine seedPoint relativeNode relativeRole origin3
      else if IsA (className relativeNode) vtkMRMLMarkupsPlaneNode
      then Inr (closestPointOnPlane relativeNode seedPoint)
      else Inr origin3)"

subsection \<open>updateRelativeSeedPosition\<close>

text \<open>Lines 1226 to 1238: the axis on which the constraint is violated, or -1.\<close>

definition invalidAxis_of :: "string \<Rightarrow> vec3 \<Rightarrow> vec3 \<Rightarrow> vec3 \<Rightarrow> int" where
  "invalidAxis_of relativeRole seedPoint closestPoint differenceVector =
     (let invalidAxis0 =
            (if relativeRole = LATERAL_OF_RELATIVE_ROLE
                \<and> \<bar>vec_nth seedPoint 0\<bar> < \<bar>vec_nth closestPoint 0\<bar> then 0
             else if relativeRole = MEDIAL_OF_RELATIVE_ROLE
                \<and> \<bar>vec_nth seedPoint 0\<bar> > \<bar>vec_nth closestPoint 0\<bar> then 0
             else - 1)
      in if relativeRole = ANTERIOR_OF_RELATIVE_ROLE \<and> vec_nth differenceVector 1 < 0 then 1
         else if relativeRole = POSTERIOR_OF_RELATIVE_ROLE \<and> vec_nth differenceVector 1 > 0 then 1
         else if relativeRole = SUPERIOR_OF_RELATIVE_ROLE \<and> vec_nth differenceVector 2 < 0 then 2
         else if relativeRole = INFERIOR_OF_RELATIVE_ROLE \<and> vec_nth differenceVector 2 > 0 then 2
         else invalidAxis0)"

text \<open>Lines 1223 to 1243: the seed point after the correction against a reference point.\<close>

definition correctedSeedPoint :: "string \<Rightarrow> vec3 \<Rightarrow> vec3 \<Rightarrow> vec3" where
  "correctedSeedPoint relativeRole seedPoint closestPoint =
     (let differenceVector = vtkMath_Subtract seedPoint closestPoint;
          invalidAxis = invalidAxis_of relativeRole seedPoint closestPoint differenceVector
      in if invalidAxis < 0 then seedPoint
         else vec_upd seedPoint invalidAxis
                (vec_nth closestPoint invalidAxis - vec_nth differenceVector invalidAxis))"

definition SetNthControlPointPosition :: "nat \<Rightarrow> vec3 \<Rightarrow> mrml_node \<Rightarrow> mrml_node" where
  "SetNthControlPointPosition i p n = n\<lparr>controlPoints := (controlPoints n)[i := p]\<rparr>"

text \<open>
  The loop over the control points of the seed.  A point whose constraint holds is not
  written (\<^verbatim>\<open>continue\<close>).
\<close>

fun seedPosition_loop ::
  "world \<Rightarrow> nat \<Rightarrow> nat \<Rightarrow> string \<Rightarrow> nat list \<Rightarrow> py_error option \<times> world" where
  "seedPosition_loop W seedNode relativeNode relativeRole [] = (None, W)"
| "seedPosition_loop W seedNode relativeNode relativeRole (i # js) =
     (let seedPoint = controlPoints (scene W ! seedNode) ! i in
      case referencePoint (scene W ! relativeNode) relativeRole seedPoint of
        Inl e \<Rightarrow> (Some e, W)
      | Inr closestPoint \<Rightarrow>
          if invalidAxis_of relativeRole seedPoint closestPoint
               (vtkMath_Subtract seedPoint closestPoint) < 0
          then seedPosition_loop W seedNode relativeNode relativeRole js
          else seedPosition_loop
                 (update_node seedNode
                    (SetNthControlPointPosition i
                       (correctedSeedPoint relativeRole seedPoint closestPoint)) W)
                 seedNode relativeNode relativeRole js)"

definition updateRelativeSeedPosition ::
  "world \<Rightarrow> nat \<Rightarrow> nat option \<Rightarrow> string \<Rightarrow> py_error option \<times> world" where
  "updateRelativeSeedPosition W seedNode relativeNode relativeRole =
     (case relativeNode of
        None \<Rightarrow> (Some AttributeError, W)
      | Some r \<Rightarrow>
          if length (controlPoints (scene W ! r)) = 0 then (None, W)
          else
            let (e, W1) =
                  (if length (controlPoints (scene W ! seedNode)) = 0
                   then initializeSeedNode W seedNode else (None, W))
            in case e of
                 Some x \<Rightarrow> (Some x, W1)
               | None \<Rightarrow>
                   seedPosition_loop W1 seedNode r relativeRole
                     [0 ..< length (controlPoints (scene W1 ! seedNode))])"

subsection \<open>updateRelativeSeedNode\<close>

definition snapSeedsToSurface :: "world \<Rightarrow> nat \<Rightarrow> world" where
  "snapSeedsToSurface W seedNode =
     (case origPointLocator W of
        None \<Rightarrow> W
      | Some nearest \<Rightarrow>
          update_node seedNode (\<lambda>n. n\<lparr>controlPoints := map nearest (controlPoints n)\<rparr>) W)"

fun relativeNodes_loop ::
  "world \<Rightarrow> nat \<Rightarrow> string \<Rightarrow> nat option list \<Rightarrow> py_error option \<times> world" where
  "relativeNodes_loop W seedNode relativeRole [] = (None, W)"
| "relativeNodes_loop W seedNode relativeRole (relativeNode # rs) =
     (case updateRelativeSeedPosition W seedNode relativeNode relativeRole of
        (Some e, W1) \<Rightarrow> (Some e, W1)
      | (None, W1) \<Rightarrow> relativeNodes_loop W1 seedNode relativeRole rs)"

fun relativeRoles_loop :: "world \<Rightarrow> nat \<Rightarrow> string list \<Rightarrow> py_error option \<times> world" where
  "relativeRoles_loop W seedNode [] = (None, W)"
| "relativeRoles_loop W seedNode (relativeRole # roles) =
     (case relativeNodes_loop W seedNode relativeRole
             (getRelativeNodesOfRole W (Some seedNode) relativeRole) of
        (Some e, W1) \<Rightarrow> (Some e, W1)
      | (None, W1) \<Rightarrow> relativeRoles_loop W1 seedNode roles)"

text \<open>
  An exception leaves through the caller: the flag \<^verbatim>\<open>updatingSeedNodes\<close> is then not
  restored and the seed is not snapped.
\<close>

definition updateRelativeSeedNode :: "world \<Rightarrow> nat option \<Rightarrow> py_error option \<times> world" where
  "updateRelativeSeedNode W seedNode =
     (case seedNode of
        None \<Rightarrow> (None, W)
      | Some s \<Rightarrow>
          let manuallyPlacedAttribute = attributes (scene W ! s) MANUALLY_PLACED_ATTRIBUTE_NAME in
          if manuallyPlacedAttribute = Some ''TRUE'' then (None, W)
          else if manuallyPlacedAttribute = None \<and> length (controlPoints (scene W ! s)) \<noteq> 0
          then (None, W)
          else
            let wasUpdatingSeedNodes = updatingSeedNodes W;
                W1 = W\<lparr>updatingSeedNodes := True\<rparr>;
                (e, W2) =
                  (if length (controlPoints (scene W1 ! s)) = 0
                   then initializeSeedNode W1 s else (None, W1))
            in case e of
                 Some x \<Rightarrow> (Some x, W2)
               | None \<Rightarrow>
                   (case relativeRoles_loop W2 s RELATIVE_SEED_ROLES of
                      (Some x, W3) \<Rightarrow> (Some x, W3)
                    | (None, W3) \<Rightarrow>
                        (None, (snapSeedsToSurface W3 s)
                                 \<lparr>updatingSeedNodes := wasUpdatingSeedNodes\<rparr>)))"

text \<open>
  \<^verbatim>\<open>updateRelativeSeedsForMarkup\<close>: the seeds that a marker constrains, recorded on the
  marker under the reference role \<^verbatim>\<open>Relative\<close>, are updated in turn.
\<close>

definition getRelativeSeedNodes :: "world \<Rightarrow> nat option \<Rightarrow> nat option list" where
  "getRelativeSeedNodes W relativeNode =
     (case relativeNode of
        None \<Rightarrow> []
      | Some r \<Rightarrow> GetNodeReferences (scene W) (scene W ! r) RELATIVE_NODE_REFERENCE)"

fun seedNodes_loop :: "world \<Rightarrow> nat option list \<Rightarrow> py_error option \<times> world" where
  "seedNodes_loop W [] = (None, W)"
| "seedNodes_loop W (seedNode # seedNodes) =
     (case updateRelativeSeedNode W seedNode of
        (Some e, W1) \<Rightarrow> (Some e, W1)
      | (None, W1) \<Rightarrow> seedNodes_loop W1 seedNodes)"

definition updateRelativeSeedsForMarkup :: "world \<Rightarrow> nat option \<Rightarrow> py_error option \<times> world" where
  "updateRelativeSeedsForMarkup W markupNode =
     (case markupNode of
        None \<Rightarrow> (None, W)
      | Some m \<Rightarrow> seedNodes_loop W (getRelativeSeedNodes W (Some m)))"

definition SetAttribute :: "string \<Rightarrow> string \<Rightarrow> mrml_node \<Rightarrow> mrml_node" where
  "SetAttribute name v n = n\<lparr>attributes := (attributes n)(name \<mapsto> v)\<rparr>"

definition onSeedNodeModified :: "world \<Rightarrow> nat \<Rightarrow> world" where
  "onSeedNodeModified W seedNode =
     (if updatingSeedNodes W then W
      else update_node seedNode (SetAttribute MANUALLY_PLACED_ATTRIBUTE_NAME ''TRUE'') W)"

definition onSeedRemoved :: "world \<Rightarrow> nat option \<Rightarrow> world" where
  "onSeedRemoved W seedNode =
     (case seedNode of
        None \<Rightarrow> W
      | Some s \<Rightarrow>
          if length (controlPoints (scene W ! s)) \<noteq> 0 then W
          else update_node s (SetAttribute MANUALLY_PLACED_ATTRIBUTE_NAME ''FALSE'') W)"

text \<open>\<^verbatim>\<open>RemoveAllControlPoints\<close> of the host, which the point-removed event follows.\<close>

definition RemoveAllControlPoints :: "mrml_node \<Rightarrow> mrml_node" where
  "RemoveAllControlPoints n = n\<lparr>controlPoints := []\<rparr>"

subsection \<open>runDynamicModelerTool\<close>

abbreviation BOUNDARY_CUT_INPUT_BORDER_REFERENCE :: string where
  "BOUNDARY_CUT_INPUT_BORDER_REFERENCE \<equiv> ''BoundaryCut.InputBorder''"
abbreviation BOUNDARY_CUT_OUTPUT_MODEL_REFERENCE :: string where
  "BOUNDARY_CUT_OUTPUT_MODEL_REFERENCE \<equiv> ''BoundaryCut.OutputModel''"
abbreviation BOUNDARY_CUT_INPUT_SEED_REFERENCE :: string where
  "BOUNDARY_CUT_INPUT_SEED_REFERENCE \<equiv> ''BoundaryCut.InputSeed''"





section \<open>The query interpreter\<close>

subsection \<open>Scene lookups\<close>

fun find_first :: "('a \<Rightarrow> bool) \<Rightarrow> 'a list \<Rightarrow> nat \<Rightarrow> nat option" where
  "find_first P [] k = None"
| "find_first P (n # ns) k = (if P n then Some k else find_first P ns (Suc k))"

text \<open>
  \<^verbatim>\<open>slicer.util.getFirstNodeByClassByName(className, name)\<close> of the host: the first node
  of the scene that is of the class (or a subclass) and has exactly the name.
\<close>

definition getFirstNodeByClassByName :: "mrml_node list \<Rightarrow> node_class \<Rightarrow> string \<Rightarrow> nat option" where
  "getFirstNodeByClassByName sc cls name =
     find_first (\<lambda>n. IsA (className n) cls \<and> nodeName n = name) sc 0"

text \<open>
  \<^verbatim>\<open>slicer.util.getNode(name)\<close> of the host: the first node with the name, of any class;
  it raises when there is none.  Its matching of node IDs and of wildcard patterns is
  left out: a Python identifier holds no wildcard, and IDs are positions here.
\<close>

definition getNode :: "mrml_node list \<Rightarrow> string \<Rightarrow> py_error + nat" where
  "getNode sc name =
     (case find_first (\<lambda>n. nodeName n = name) sc 0 of
        None \<Rightarrow> Inl MRMLNodeNotFoundException
      | Some i \<Rightarrow> Inr i)"

definition AddNewNodeByClass :: "node_class \<Rightarrow> string \<Rightarrow> world \<Rightarrow> nat \<times> world" where
  "AddNewNodeByClass cls name W =
     (length (scene W), W\<lparr>scene := scene W @ [new_node cls name]\<rparr>)"

definition update_parameterNode :: "(mrml_node \<Rightarrow> mrml_node) \<Rightarrow> world \<Rightarrow> world" where
  "update_parameterNode f W = W\<lparr>parameterNode := map_option f (parameterNode W)\<rparr>"

abbreviation INPUT_MARKUPS_REFERENCE :: string where
  "INPUT_MARKUPS_REFERENCE \<equiv> ''InputMarkups''"
abbreviation INPUT_QUERY_REFERENCE :: string where
  "INPUT_QUERY_REFERENCE \<equiv> ''InputQuery''"
abbreviation OUTPUT_MODEL_REFERENCE :: string where
  "OUTPUT_MODEL_REFERENCE \<equiv> ''OutputModel''"
abbreviation TOOL_NODE_REFERENCE :: string where
  "TOOL_NODE_REFERENCE \<equiv> ''ToolNode''"

subsection \<open>The syntax tree\<close>

text \<open>
  The tree that \<^verbatim>\<open>ast.parse\<close> returns, for the statement and expression forms that the
  claims are about: assignments and expression statements, each with its line number,
  over names, string constants, list displays, binary operators (with the operator's
  symbol, which the visitor never reads), calls and unary operators.
\<close>

datatype expr =
    Name string
  | Str string
  | List "expr list"
  | BinOp expr string expr
  | Call expr "expr list"
  | UnaryOp string expr

datatype stmt =
    Assign nat "expr list" expr
  | Expr nat expr

subsection \<open>The visitor\<close>

text \<open>
  The visitor module imports \<^verbatim>\<open>ast\<close>, \<^verbatim>\<open>vtk\<close> and \<^verbatim>\<open>slicer\<close> only, so each of its
  \<^verbatim>\<open>logging.error(...)\<close> calls raises \<^verbatim>\<open>NameError\<close> when reached, before the message is
  formatted.

  \<open>visit\<close> is \<^verbatim>\<open>NodeVisitor.visit\<close> on an expression: the handlers of the class where it
  has one, and \<^verbatim>\<open>generic_visit\<close> (visit the children in order, return \<^verbatim>\<open>None\<close>)
  otherwise.  The value is \<open>None\<close> for Python's \<^verbatim>\<open>None\<close> and the list of node IDs
  otherwise.  Visiting an expression reads the scene and does not change it.
\<close>

fun visit :: "mrml_node list \<Rightarrow> expr \<Rightarrow> py_error + nat list option"
  and generic_visit :: "mrml_node list \<Rightarrow> expr list \<Rightarrow> py_error + nat list option" where
  "visit sc (Name ident) =
     (case getNode sc ident of Inl e \<Rightarrow> Inl e | Inr slicerNode \<Rightarrow> Inr (Some [slicerNode]))"
| "visit sc (Call func args) = Inr None"
| "visit sc (BinOp leftValue opr rightValue) =
     (case visit sc leftValue of
        Inl e \<Rightarrow> Inl e
      | Inr leftNodes \<Rightarrow>
          (case visit sc rightValue of
             Inl e \<Rightarrow> Inl e
           | Inr rightNodes \<Rightarrow>
               (case (leftNodes, rightNodes) of
                  (Some l, Some r) \<Rightarrow> Inr (Some (l @ r))
                | _ \<Rightarrow> Inl TypeError)))"
| "visit sc (UnaryOp opr operand) = Inl NameError"
| "visit sc (List elts) = generic_visit sc elts"
| "visit sc (Str s) = Inr None"
| "generic_visit sc [] = Inr None"
| "generic_visit sc (e # es) =
     (case visit sc e of Inl x \<Rightarrow> Inl x | Inr _ \<Rightarrow> generic_visit sc es)"

text \<open>\<^verbatim>\<open>[e.id for e in node.elts]\<close>: an element that is not a name has no \<^verbatim>\<open>id\<close>.\<close>

fun planeNames_of :: "expr list \<Rightarrow> py_error + string list" where
  "planeNames_of [] = Inr []"
| "planeNames_of (Name ident # es) =
     (case planeNames_of es of Inl e \<Rightarrow> Inl e | Inr ns \<Rightarrow> Inr (ident # ns))"
| "planeNames_of (_ # es) = Inl AttributeError"

text \<open>
  The loop of \<^verbatim>\<open>process_InputNodes\<close> over the names.  \<open>dwf\<close> is
  \<^verbatim>\<open>self.distanceWeightingFunction\<close>, \<open>None\<close> while the attribute has never been
  assigned (the constructor does not set it), in which case reading it raises.
\<close>

fun inputNodes_loop ::
  "string option \<Rightarrow> node_class \<Rightarrow> string list \<Rightarrow> nat list \<Rightarrow> world
     \<Rightarrow> (py_error + nat list) \<times> world" where
  "inputNodes_loop dwf cls [] inputNodes W = (Inr inputNodes, W)"
| "inputNodes_loop dwf cls (name # names) inputNodes W =
     (let (inputNode, W1) =
            (case getFirstNodeByClassByName (scene W) cls name of
               Some i \<Rightarrow> (i, W)
             | None \<Rightarrow> AddNewNodeByClass cls name W)
      in if IsA (className (scene W1 ! inputNode)) vtkMRMLMarkupsCurveNode \<and> dwf = None
         then (Inl AttributeError, W1)
         else
           let W2 =
                 (if IsA (className (scene W1 ! inputNode)) vtkMRMLMarkupsCurveNode
                  then update_node inputNode
                         (SetAttribute ''DistanceWeightingFunction'' (the dwf)) W1
                  else W1);
               W3 = update_parameterNode
                      (AddNodeReferenceID INPUT_MARKUPS_REFERENCE inputNode) W2
           in inputNodes_loop dwf cls names (inputNodes @ [inputNode]) W3)"

definition process_InputNodes ::
  "string option \<Rightarrow> world \<Rightarrow> expr \<Rightarrow> node_class \<Rightarrow> (py_error + nat list) \<times> world" where
  "process_InputNodes dwf W node cls =
     (case node of
        List elts \<Rightarrow>
          (case planeNames_of elts of
             Inl e \<Rightarrow> (Inl e, W)
           | Inr planeNames \<Rightarrow> inputNodes_loop dwf cls planeNames [] W)
      | _ \<Rightarrow> (Inl NameError, W))"

definition SetCurveTypeToShortestDistanceOnSurface :: "mrml_node \<Rightarrow> mrml_node" where
  "SetCurveTypeToShortestDistanceOnSurface n = n\<lparr>curveType := ShortestDistanceOnSurface\<rparr>"

definition ContinuousUpdateOff :: "mrml_node \<Rightarrow> mrml_node" where
  "ContinuousUpdateOff n = n\<lparr>continuousUpdate := False\<rparr>"

definition SetToolName :: "tool_name \<Rightarrow> mrml_node \<Rightarrow> mrml_node" where
  "SetToolName t n = n\<lparr>toolName := Some t\<rparr>"

text \<open>The two curve branches of \<^verbatim>\<open>visit_Assign\<close>, which differ in the class only.\<close>

definition visit_Assign_curves :: "string option \<Rightarrow> world \<Rightarrow> expr \<Rightarrow> node_class \<Rightarrow> py_error option \<times> world" where
  "visit_Assign_curves dwf W node cls =
     (case process_InputNodes dwf W node cls of
        (Inl e, W1) \<Rightarrow> (Some e, W1)
      | (Inr curveNodes, W1) \<Rightarrow>
          (None, fold (\<lambda>curveNode. update_node curveNode SetCurveTypeToShortestDistanceOnSurface)
                   curveNodes W1))"

text \<open>
  Lines 62 to 88 of \<^verbatim>\<open>visit_Assign\<close>: the parcel named \<open>ident\<close>.  The tool node is
  looked up as a model node but created as a dynamic modeler node; a model node that
  is found has no \<^verbatim>\<open>SetToolName\<close>.  A value that is \<^verbatim>\<open>None\<close> cannot be iterated.
\<close>

definition visit_Assign_parcel :: "world \<Rightarrow> string \<Rightarrow> expr \<Rightarrow> py_error option \<times> world" where
  "visit_Assign_parcel W ident node =
     (case visit (scene W) node of
        Inl e \<Rightarrow> (Some e, W)
      | Inr nodes \<Rightarrow>
          let (outputModel, W1) =
                (case getFirstNodeByClassByName (scene W) vtkMRMLModelNode ident of
                   Some i \<Rightarrow> (i, W)
                 | None \<Rightarrow> AddNewNodeByClass vtkMRMLModelNode ident W);
              W2 = update_parameterNode
                     (AddNodeReferenceID OUTPUT_MODEL_REFERENCE outputModel) W1;
              (inputSeed, W3) =
                (case getFirstNodeByClassByName (scene W2) vtkMRMLMarkupsFiducialNode
                        (ident @ ''_SeedPoints'') of
                   Some i \<Rightarrow> (i, W2)
                 | None \<Rightarrow>
                     AddNewNodeByClass vtkMRMLMarkupsFiducialNode (ident @ ''_SeedPoints'') W2);
              toolNodeName = nodeName (scene W3 ! outputModel) @ ''_BoundaryCut''
          in case getFirstNodeByClassByName (scene W3) vtkMRMLModelNode toolNodeName of
               Some modelNode \<Rightarrow> (Some AttributeError, W3)
             | None \<Rightarrow>
                 let (toolNode, W4) =
                       AddNewNodeByClass vtkMRMLDynamicModelerNode toolNodeName W3;
                     W5 = update_node toolNode
                            (\<lambda>n. SetNodeReferenceID BOUNDARY_CUT_INPUT_SEED_REFERENCE inputSeed
                                   (SetNodeReferenceID BOUNDARY_CUT_OUTPUT_MODEL_REFERENCE outputModel
                                      (SetToolName vtkSlicerDynamicModelerBoundaryCutTool n))) W4
                 in case nodes of
                      None \<Rightarrow> (Some TypeError, W5)
                    | Some inputNodes \<Rightarrow>
                        (None,
                         update_parameterNode (AddNodeReferenceID TOOL_NODE_REFERENCE toolNode)
                           (update_node toolNode
                              (\<lambda>n. ContinuousUpdateOff
                                     (fold (AddNodeReferenceID BOUNDARY_CUT_INPUT_BORDER_REFERENCE)
                                        inputNodes n)) W5)))"

text \<open>
  \<^verbatim>\<open>visit_Assign\<close> on targets and value; the result is the exception raised if any, the
  visitor's \<^verbatim>\<open>distanceWeightingFunction\<close> and the world afterwards.
\<close>

definition visit_Assign ::
  "string option \<Rightarrow> world \<Rightarrow> expr list \<Rightarrow> expr \<Rightarrow> py_error option \<times> string option \<times> world" where
  "visit_Assign dwf W targets node =
     (if length targets > 1 then (Some NameError, dwf, W)
      else
        case targets of
          [] \<Rightarrow> (Some IndexError, dwf, W)
        | target # _ \<Rightarrow>
            (case target of
               Name ident \<Rightarrow>
                 if ident = ''_Planes'' then
                   (case process_InputNodes dwf W node vtkMRMLMarkupsPlaneNode of
                      (Inl e, W1) \<Rightarrow> (Some e, dwf, W1)
                    | (Inr _, W1) \<Rightarrow> (None, dwf, W1))
                 else if ident = ''_Curves'' then
                   (case visit_Assign_curves dwf W node vtkMRMLMarkupsCurveNode of
                      (e, W1) \<Rightarrow> (e, dwf, W1))
                 else if ident = ''_ClosedCurves'' then
                   (case visit_Assign_curves dwf W node vtkMRMLMarkupsClosedCurveNode of
                      (e, W1) \<Rightarrow> (e, dwf, W1))
                 else if ident = ''_DistanceWeightingFunction'' then
                   (case node of
                      Str s \<Rightarrow> (None, Some s, W)
                    | _ \<Rightarrow> (Some AttributeError, dwf, W))
                 else
                   (case visit_Assign_parcel W ident node of
                      (e, W1) \<Rightarrow> (e, dwf, W1))
             | _ \<Rightarrow> (Some NameError, dwf, W)))"

text \<open>
  A statement: an assignment goes to \<^verbatim>\<open>visit_Assign\<close>, an expression statement to
  \<^verbatim>\<open>generic_visit\<close>, which visits the expression and drops its value.
\<close>

fun visit_stmt :: "string option \<Rightarrow> world \<Rightarrow> stmt \<Rightarrow> py_error option \<times> string option \<times> world" where
  "visit_stmt dwf W (Assign lineno targets node) = visit_Assign dwf W targets node"
| "visit_stmt dwf W (Expr lineno node) =
     (case visit (scene W) node of Inl e \<Rightarrow> (Some e, dwf, W) | Inr _ \<Rightarrow> (None, dwf, W))"

fun visit_Module :: "string option \<Rightarrow> world \<Rightarrow> stmt list \<Rightarrow> py_error option \<times> string option \<times> world" where
  "visit_Module dwf W [] = (None, dwf, W)"
| "visit_Module dwf W (s # body) =
     (case visit_stmt dwf W s of
        (Some e, dwf1, W1) \<Rightarrow> (Some e, dwf1, W1)
      | (None, dwf1, W1) \<Rightarrow> visit_Module dwf1 W1 body)"

subsection \<open>parseParcellationString and loadQuery\<close>

datatype query_result = ReturnedFalse | ReturnedNone | Returned bool string

text \<open>
  \<open>queryString\<close> is what \<^verbatim>\<open>ast.parse\<close> makes of the query text: \<open>None\<close> when there is
  no query text, \<open>Inl\<close> when parsing raises, the statements of the module otherwise.
  Every exception is caught; \<^verbatim>\<open>errorMessage\<close> is returned as it was initialised.
\<close>

definition parseParcellationString ::
  "world \<Rightarrow> (py_error + stmt list) option \<Rightarrow> query_result \<times> world" where
  "parseParcellationString W queryString =
     (case parameterNode W of
        None \<Rightarrow> (ReturnedNone, W)
      | Some _ \<Rightarrow>
          (case queryString of
             None \<Rightarrow> (ReturnedNone, W)
           | Some (Inl e) \<Rightarrow> (Returned False [], W)
           | Some (Inr body) \<Rightarrow>
               (case visit_Module None W body of
                  (Some e, dwf, W1) \<Rightarrow> (Returned False [], W1)
                | (None, dwf, W1) \<Rightarrow> (Returned True [], W1))))"

text \<open>
  \<open>fileQuery\<close> is what \<^verbatim>\<open>ast.parse\<close> makes of the text read from the query file.  The
  storage node, added and removed within the call, is left out.
\<close>

definition loadQuery :: "world \<Rightarrow> py_error + stmt list \<Rightarrow> query_result \<times> world" where
  "loadQuery W fileQuery =
     (case parameterNode W of
        None \<Rightarrow> (ReturnedFalse, W)
      | Some p \<Rightarrow>
          let W1 =
                (case GetNodeReference (scene W) p INPUT_QUERY_REFERENCE of
                   Some q \<Rightarrow> W
                 | None \<Rightarrow>
                     (let (q, W') = AddNewNodeByClass vtkMRMLTextNode ''ParcellationQuery'' W
                      in update_parameterNode (SetNodeReferenceID INPUT_QUERY_REFERENCE q) W'));
              W2 = update_parameterNode (RemoveNodeReferenceIDs INPUT_MARKUPS_REFERENCE) W1;
              W3 = update_parameterNode (RemoveNodeReferenceIDs OUTPUT_MODEL_REFERENCE) W2
          in parseParcellationString W3 (Some fileQuery))"

section \<open>Notions of the specification and example scenes\<close>

text \<open>
  The specification speaks of the centroid of a marker's control points (equal weight
  per point) and of the mean of centroids.  Both are written here as it words them, to
  be compared with the loops of the code.
\<close>

fun vec_sum :: "vec3 list \<Rightarrow> vec3" where
  "vec_sum [] = origin3"
| "vec_sum (p # ps) = vtkMath_Add p (vec_sum ps)"

definition centroid :: "vec3 list \<Rightarrow> vec3" where
  "centroid ps = vtkMath_MultiplyScalar (vec_sum ps) (1 / real (length ps))"

definition empty_world :: world where
  "empty_world =
     \<lparr> scene = [], parameterNode = None, updatingSeedNodes = False,
       origPointLocator = None, solverRuns = [] \<rparr>"

text \<open>
  A seed constrained by two markers: node 1 (anterior_of) and node 2 (superior_of).
\<close>

definition example_seed :: mrml_node where
  "example_seed =
     (new_node vtkMRMLMarkupsFiducialNode ''P_SeedPoints'')
       \<lparr>references := (\<lambda>_. [])(''Relative.anterior_of'' := [1], ''Relative.superior_of'' := [2])\<rparr>"

text \<open>The markers of the specification's example: two points and one point.\<close>

definition two_level_world :: world where
  "two_level_world =
     empty_world
       \<lparr>scene :=
         [example_seed,
          (new_node vtkMRMLMarkupsCurveNode ''A'')\<lparr>controlPoints := [(0, 0, 0), (2, 0, 0)]\<rparr>,
          (new_node vtkMRMLMarkupsCurveNode ''B'')\<lparr>controlPoints := [(0, 0, 10)]\<rparr>]\<rparr>"

text \<open>The same seed when the second marker has no control point yet.\<close>

definition empty_marker_world :: world where
  "empty_marker_world =
     empty_world
       \<lparr>scene :=
         [example_seed,
          (new_node vtkMRMLMarkupsCurveNode ''A'')\<lparr>controlPoints := [(0, 0, 0), (2, 0, 0)]\<rparr>,
          new_node vtkMRMLMarkupsCurveNode ''B'']\<rparr>"

text \<open>
  The directional constraints as the specification words them: the axis of a role, the
  direction a role implies for a seed (lateral is away from the midline on the seed's own
  side), and when a seed is on the wrong side of a reference point.
\<close>

definition role_axis :: "string \<Rightarrow> int" where
  "role_axis role =
     (if role = MEDIAL_OF_RELATIVE_ROLE \<or> role = LATERAL_OF_RELATIVE_ROLE then 0
      else if role = ANTERIOR_OF_RELATIVE_ROLE \<or> role = POSTERIOR_OF_RELATIVE_ROLE then 1
      else 2)"


definition constraint_violated :: "string \<Rightarrow> vec3 \<Rightarrow> vec3 \<Rightarrow> bool" where
  "constraint_violated role seedPoint ref =
     (if role = ANTERIOR_OF_RELATIVE_ROLE then vec_nth seedPoint 1 - vec_nth ref 1 < 0
      else if role = POSTERIOR_OF_RELATIVE_ROLE then vec_nth seedPoint 1 - vec_nth ref 1 > 0
      else if role = SUPERIOR_OF_RELATIVE_ROLE then vec_nth seedPoint 2 - vec_nth ref 2 < 0
      else if role = INFERIOR_OF_RELATIVE_ROLE then vec_nth seedPoint 2 - vec_nth ref 2 > 0
      else if role = LATERAL_OF_RELATIVE_ROLE then \<bar>vec_nth seedPoint 0\<bar> < \<bar>vec_nth ref 0\<bar>
      else \<bar>vec_nth seedPoint 0\<bar> > \<bar>vec_nth ref 0\<bar>)"

text \<open>
  A seed with one control point \<open>p\<close>, constrained to be anterior of node 1, a plane
  through (0,3,0) with normal along y: its closest point to (x,y,z) is (x,3,z).
\<close>

definition anterior_plane_world :: "vec3 \<Rightarrow> world" where
  "anterior_plane_world p =
     empty_world
       \<lparr>scene :=
         [(new_node vtkMRMLMarkupsFiducialNode ''P_SeedPoints'')
            \<lparr>references := (\<lambda>_. [])(''Relative.anterior_of'' := [1]), controlPoints := [p]\<rparr>,
          (new_node vtkMRMLMarkupsPlaneNode ''A'')
            \<lparr>controlPoints := [(0, 3, 0)],
             closestPointOnPlane := (\<lambda>q. vec_upd q 1 3)\<rparr>]\<rparr>"



text \<open>
  Frame of the seed derivation: two worlds that differ at most in the control points of
  the node \<open>s\<close> and in the reentrancy flag.
\<close>

definition only_points :: "nat \<Rightarrow> world \<Rightarrow> world \<Rightarrow> bool" where
  "only_points s W W' =
     ((\<exists>cps. scene W' = (scene W)[s := (scene W ! s)\<lparr>controlPoints := cps\<rparr>]) \<and>
      solverRuns W' = solverRuns W \<and> parameterNode W' = parameterNode W \<and>
      origPointLocator W' = origPointLocator W)"

text \<open>
  Every constraint of the seed \<open>s\<close> references a node of the scene, and a referenced
  curve has a discretisation.
\<close>

definition constraints_ok :: "world \<Rightarrow> nat \<Rightarrow> bool" where
  "constraints_ok W s =
     (\<forall>role \<in> set RELATIVE_SEED_ROLES.
        \<forall>r \<in> set (references (scene W ! s) (referenceRole role)).
          r < length (scene W) \<and>
          (IsA (className (scene W ! r)) vtkMRMLMarkupsCurveNode
             \<longrightarrow> curvePoints (scene W ! r) \<noteq> None))"

text \<open>
  The user removes every control point of the seed \<open>s\<close>; the point-removed event then
  runs \<^verbatim>\<open>onSeedRemoved\<close>.
\<close>

definition removed_all_points :: "world \<Rightarrow> nat \<Rightarrow> world" where
  "removed_all_points W s = onSeedRemoved (update_node s RemoveAllControlPoints W) (Some s)"

text \<open>A seed placed by hand at (7,7,7), constrained to be anterior of the plane y = 3.\<close>

definition manual_world :: world where
  "manual_world =
     update_node 0 (SetAttribute MANUALLY_PLACED_ATTRIBUTE_NAME ''TRUE'')
       (anterior_plane_world (7, 7, 7))"


text \<open>An empty scene with the parameter node of the module.\<close>

definition start_world :: world where
  "start_world =
     empty_world
       \<lparr>parameterNode := Some (new_node vtkMRMLScriptedModuleNode ''NeuroSegmentParcellation'')\<rparr>"

text \<open>
  Two query scripts with disjoint parcel names:
  \<^verbatim>\<open>_Planes = [A]\<close>, \<^verbatim>\<open>P = A\<close> and \<^verbatim>\<open>_Planes = [B]\<close>, \<^verbatim>\<open>Q = B\<close>.
\<close>

definition script_P :: "stmt list" where
  "script_P = [Assign 1 [Name ''_Planes''] (List [Name ''A'']), Assign 2 [Name ''P''] (Name ''A'')]"

definition script_Q :: "stmt list" where
  "script_Q = [Assign 1 [Name ''_Planes''] (List [Name ''B'']), Assign 2 [Name ''Q''] (Name ''B'')]"

text \<open>
  The script of the weighting-function example:
  \<^verbatim>\<open>_DistanceWeightingFunction = "a"\<close>, \<^verbatim>\<open>_Curves = [X]\<close>,
  \<^verbatim>\<open>_DistanceWeightingFunction = "b"\<close>, \<^verbatim>\<open>_Curves = [Y]\<close>.
\<close>

definition script_weighting :: "stmt list" where
  "script_weighting =
     [Assign 1 [Name ''_DistanceWeightingFunction''] (Str ''a''),
      Assign 2 [Name ''_Curves''] (List [Name ''X'']),
      Assign 3 [Name ''_DistanceWeightingFunction''] (Str ''b''),
      Assign 4 [Name ''_Curves''] (List [Name ''Y''])]"

text \<open>A script that is the single statement \<^verbatim>\<open>foo()\<close>, on line 1.\<close>

definition script_call :: "stmt list" where
  "script_call = [Expr 1 (Call (Name ''foo'') [])]"

text \<open>A statement that assigns to the weighting directive.\<close>

fun assigns_weighting :: "stmt \<Rightarrow> bool" where
  "assigns_weighting (Assign lineno [Name ident] node) = (ident = ''_DistanceWeightingFunction'')"
| "assigns_weighting _ = False"

text \<open>
  The marker \<open>name\<close> of class \<open>cls\<close> exists in the scene and carries the weighting
  function \<open>w\<close> as its attribute.
\<close>

definition has_weighting :: "world \<Rightarrow> node_class \<Rightarrow> string \<Rightarrow> string \<Rightarrow> bool" where
  "has_weighting W cls name w =
     (case getFirstNodeByClassByName (scene W) cls name of
        None \<Rightarrow> False
      | Some i \<Rightarrow> attributes (scene W ! i) ''DistanceWeightingFunction'' = Some w)"

text \<open>The worlds after loading the first script, and then the second.\<close>

definition after_P :: world where
  "after_P = snd (loadQuery start_world (Inr script_P))"

definition after_P_then_Q :: world where
  "after_P_then_Q = snd (loadQuery after_P (Inr script_Q))"

text \<open>A statement that is a bare function call, and the names of the directives.\<close>

fun is_call_statement :: "stmt \<Rightarrow> bool" where
  "is_call_statement (Expr lineno (Call func args)) = True"
| "is_call_statement _ = False"

definition directives :: "string list" where
  "directives = [''_Planes'', ''_Curves'', ''_ClosedCurves'', ''_DistanceWeightingFunction'']"

section \<open>Seed initialisation\<close>

lemma averagePoint_loop_sum:
  "averagePoint_loop ps k avg = vtkMath_Add (vtkMath_MultiplyScalar (vec_sum ps) k) avg"
proof (induction ps arbitrary: avg)
  case Nil
  show ?case by (cases avg) simp
next
  case (Cons p ps)
  show ?case
    by (cases avg; cases p; cases "vec_sum ps") (simp add: Cons.IH algebra_simps)
qed

lemma averagePoint_loop_centroid:
  "averagePoint_loop ps (1 / real (length ps)) origin3 = centroid ps"
  by (cases "vec_sum ps") (simp add: averagePoint_loop_sum centroid_def)

lemma seedPoint_loop_sum:
  "seedPoint_loop sc (map Some rs) k sp =
     Inr (vtkMath_Add
            (vtkMath_MultiplyScalar
               (vec_sum (map (\<lambda>r. centroid (controlPoints (sc ! r)))
                           (filter (\<lambda>r. controlPoints (sc ! r) \<noteq> []) rs))) k) sp)"
proof (induction rs arbitrary: sp)
  case Nil
  show ?case by (cases sp) simp
next
  case (Cons r rs)
  show ?case
    by (cases sp; cases "centroid (controlPoints (sc ! r))";
        cases "vec_sum (map (\<lambda>r. centroid (controlPoints (sc ! r)))
                           (filter (\<lambda>r. controlPoints (sc ! r) \<noteq> []) rs))")
       (simp add: Cons.IH averagePoint_loop_centroid Let_def algebra_simps)
qed

lemma example_relativeNodes:
  "concat (map (getRelativeNodesOfRole (empty_world\<lparr>scene := [example_seed, a, b]\<rparr>) (Some 0))
             RELATIVE_SEED_ROLES) = map Some [1, 2]"
  by (simp add: getRelativeNodesOfRole_def RELATIVE_SEED_ROLES_def example_seed_def
      GetNodeReferences_def new_node_def referenceRole_def)

text \<open>
  Claim C4.  For a seed without control points whose constraints all reference markers
  with at least one control point, \<^verbatim>\<open>initializeSeedNode\<close> places one control point: the
  mean, with equal weight per constraint, of the centroids of the referenced markers,
  each centroid taken with equal weight per control point.  On the markers
  (0,0,0),(2,0,0) and (0,0,10) this is (0.5, 0, 5), as the witness computes.
\<close>

theorem initializeSeedNode_two_level_mean:
  assumes "concat (map (getRelativeNodesOfRole W (Some s)) RELATIVE_SEED_ROLES) = map Some rs"
    and "rs \<noteq> []"
    and "\<forall>r \<in> set rs. controlPoints (scene W ! r) \<noteq> []"
    and "s < length (scene W)"
    and "controlPoints (scene W ! s) = []"
  shows "fst (initializeSeedNode W s) = None \<and>
         controlPoints (scene (snd (initializeSeedNode W s)) ! s) =
           [vtkMath_MultiplyScalar
              (vec_sum (map (\<lambda>r. centroid (controlPoints (scene W ! r))) rs))
              (1 / real (length rs))]"
proof -
  have f: "filter (\<lambda>r. controlPoints (scene W ! r) \<noteq> []) rs = rs"
    using assms(3) by (simp add: filter_id_conv)
  obtain a b c where v: "vec_sum (map (\<lambda>r. centroid (controlPoints (scene W ! r))) rs) = (a, b, c)"
    by (cases "vec_sum (map (\<lambda>r. centroid (controlPoints (scene W ! r))) rs)")
  show ?thesis
    using assms(2,4,5)
    by (simp add: initializeSeedNode_def assms(1) seedPoint_loop_sum f v update_node_def
        AddControlPoint_def)
qed

theorem initializeSeedNode_two_level_mean_witness:
  "fst (initializeSeedNode two_level_world 0) = None \<and>
   controlPoints (scene (snd (initializeSeedNode two_level_world 0)) ! 0) = [(1 / 2, 0, 5)]"
proof -
  have h1: "concat (map (getRelativeNodesOfRole two_level_world (Some 0)) RELATIVE_SEED_ROLES)
              = map Some [1, 2]"
    unfolding two_level_world_def by (rule example_relativeNodes)
  have h3: "\<forall>r \<in> set [1, 2 :: nat]. controlPoints (scene two_level_world ! r) \<noteq> []"
    by (simp add: two_level_world_def)
  have h4: "0 < length (scene two_level_world)"
    by (simp add: two_level_world_def)
  have h5: "controlPoints (scene two_level_world ! 0) = []"
    by (simp add: two_level_world_def example_seed_def new_node_def)
  show ?thesis
    using initializeSeedNode_two_level_mean [OF h1 _ h3 h4 h5]
    by (simp add: two_level_world_def centroid_def)
qed

text \<open>
  Claim C10.  A constraint whose marker has no control point adds nothing to the sum
  and is still counted in the divisor: the initial seed point is the sum of the centroids
  of the markers that have points, divided by the number of all constraints.  With one
  marker at (0,0,0),(2,0,0) and one empty marker the seed is placed at (0.5, 0, 0), half
  way between the origin and the centroid (1, 0, 0).
\<close>

theorem initializeSeedNode_counts_empty_markers:
  assumes "concat (map (getRelativeNodesOfRole W (Some s)) RELATIVE_SEED_ROLES) = map Some rs"
    and "rs \<noteq> []"
    and "s < length (scene W)"
  shows "fst (initializeSeedNode W s) = None \<and>
         controlPoints (scene (snd (initializeSeedNode W s)) ! s) =
           controlPoints (scene W ! s) @
           [vtkMath_MultiplyScalar
              (vec_sum (map (\<lambda>r. centroid (controlPoints (scene W ! r)))
                          (filter (\<lambda>r. controlPoints (scene W ! r) \<noteq> []) rs)))
              (1 / real (length rs))]"
proof -
  obtain a b c where v:
    "vec_sum (map (\<lambda>r. centroid (controlPoints (scene W ! r)))
                (filter (\<lambda>r. controlPoints (scene W ! r) \<noteq> []) rs)) = (a, b, c)"
    by (cases "vec_sum (map (\<lambda>r. centroid (controlPoints (scene W ! r)))
                (filter (\<lambda>r. controlPoints (scene W ! r) \<noteq> []) rs))")
  show ?thesis
    using assms(2,3)
    by (simp add: initializeSeedNode_def assms(1) seedPoint_loop_sum v update_node_def
        AddControlPoint_def)
qed

theorem initializeSeedNode_counts_empty_markers_witness:
  "fst (initializeSeedNode empty_marker_world 0) = None \<and>
   controlPoints (scene (snd (initializeSeedNode empty_marker_world 0)) ! 0) = [(1 / 2, 0, 0)]"
proof -
  have h1: "concat (map (getRelativeNodesOfRole empty_marker_world (Some 0)) RELATIVE_SEED_ROLES)
              = map Some [1, 2]"
    unfolding empty_marker_world_def by (rule example_relativeNodes)
  have h3: "0 < length (scene empty_marker_world)"
    by (simp add: empty_marker_world_def)
  show ?thesis
    using initializeSeedNode_counts_empty_markers [OF h1 _ h3]
    by (simp add: empty_marker_world_def centroid_def example_seed_def new_node_def)
qed

section \<open>Directional correction\<close>

lemma correctedSeedPoint_spec:
  assumes "role \<in> set RELATIVE_SEED_ROLES"
  shows "correctedSeedPoint role p c =
     (if constraint_violated role p c
      then vec_upd p (role_axis role)
             (vec_nth c (role_axis role) - (vec_nth p (role_axis role) - vec_nth c (role_axis role)))
      else p)"
  using assms
  by (cases p; cases c)
     (auto simp: RELATIVE_SEED_ROLES_def correctedSeedPoint_def invalidAxis_of_def
        constraint_violated_def role_axis_def Let_def)

lemma seedPosition_single:
  assumes "s < length (scene W)" "controlPoints (scene W ! s) = [p]"
    "referencePoint (scene W ! r) role p = Inr c"
  shows "fst (seedPosition_loop W s r role [0]) = None \<and>
         controlPoints (scene (snd (seedPosition_loop W s r role [0])) ! s) = [correctedSeedPoint role p c]"
  using assms
  by (simp add: correctedSeedPoint_def Let_def update_node_def SetNthControlPointPosition_def)

text \<open>
  Claim C5.  For a seed with one control point and a reference point \<open>ref\<close> of the
  constraint, \<^verbatim>\<open>updateRelativeSeedPosition\<close> leaves the point as it is when the constraint is
  not violated, and otherwise rewrites only the coordinate of the role's axis, to
  \<open>ref - (seed - ref)\<close> on that axis.  For anterior_of and the reference point (0,3,0) the
  seed (0,5,0) stays and the seed (0,1,0) becomes (0,5,0), as the witness computes.
\<close>

theorem updateRelativeSeedPosition_corrects_one_axis:
  assumes "role \<in> set RELATIVE_SEED_ROLES"
    and "s < length (scene W)"
    and "controlPoints (scene W ! s) = [p]"
    and "controlPoints (scene W ! r) \<noteq> []"
    and "referencePoint (scene W ! r) role p = Inr ref"
  shows "fst (updateRelativeSeedPosition W s (Some r) role) = None \<and>
         controlPoints (scene (snd (updateRelativeSeedPosition W s (Some r) role)) ! s) =
           [if constraint_violated role p ref
            then vec_upd p (role_axis role)
                   (vec_nth ref (role_axis role)
                      - (vec_nth p (role_axis role) - vec_nth ref (role_axis role)))
            else p]"
proof -
  have "updateRelativeSeedPosition W s (Some r) role = seedPosition_loop W s r role [0]"
    using assms(3,4) by (simp add: updateRelativeSeedPosition_def)
  then show ?thesis
    using seedPosition_single [OF assms(2,3,5)] correctedSeedPoint_spec [OF assms(1)]
    by simp
qed

theorem updateRelativeSeedPosition_corrects_one_axis_witness:
  "controlPoints (scene (snd (updateRelativeSeedPosition (anterior_plane_world (0, 5, 0)) 0
       (Some 1) ANTERIOR_OF_RELATIVE_ROLE)) ! 0) = [(0, 5, 0)] \<and>
   controlPoints (scene (snd (updateRelativeSeedPosition (anterior_plane_world (0, 1, 0)) 0
       (Some 1) ANTERIOR_OF_RELATIVE_ROLE)) ! 0) = [(0, 5, 0)]"
proof -
  have r: "ANTERIOR_OF_RELATIVE_ROLE \<in> set RELATIVE_SEED_ROLES"
    by (simp add: RELATIVE_SEED_ROLES_def)
  have l: "0 < length (scene (anterior_plane_world p))" for p
    by (simp add: anterior_plane_world_def)
  have s: "controlPoints (scene (anterior_plane_world p) ! 0) = [p]" for p
    by (simp add: anterior_plane_world_def new_node_def)
  have m: "controlPoints (scene (anterior_plane_world p) ! 1) \<noteq> []" for p
    by (simp add: anterior_plane_world_def)
  have c: "referencePoint (scene (anterior_plane_world p) ! 1) ANTERIOR_OF_RELATIVE_ROLE p
             = Inr (vec_upd p 1 3)" for p
    by (simp add: anterior_plane_world_def referencePoint_def new_node_def)
  show ?thesis
    using updateRelativeSeedPosition_corrects_one_axis [OF r l s m c, of "(0, 5, 0)"]
      updateRelativeSeedPosition_corrects_one_axis [OF r l s m c, of "(0, 1, 0)"]
    by (simp add: constraint_violated_def role_axis_def)
qed

section \<open>The reference point of a constraint\<close>











section \<open>The frame of the seed derivation\<close>

lemma only_points_refl: "only_points s W W"
  unfolding only_points_def
  by (intro conjI exI [of _ "controlPoints (scene W ! s)"]) simp_all

lemma only_points_trans:
  assumes "only_points s W W'" and "only_points s W' W''"
  shows "only_points s W W''"
proof -
  obtain a where a: "scene W' = (scene W)[s := (scene W ! s)\<lparr>controlPoints := a\<rparr>]"
    using assms(1) unfolding only_points_def by blast
  obtain b where b: "scene W'' = (scene W')[s := (scene W' ! s)\<lparr>controlPoints := b\<rparr>]"
    using assms(2) unfolding only_points_def by blast
  have "scene W'' = (scene W)[s := (scene W ! s)\<lparr>controlPoints := b\<rparr>]"
  proof (cases "s < length (scene W)")
    case True
    then show ?thesis by (simp add: a b)
  next
    case False
    then show ?thesis by (simp add: a b list_update_beyond)
  qed
  then show ?thesis
    using assms unfolding only_points_def by auto
qed

lemma only_points_update:
  assumes "\<And>n. \<exists>cps. f n = n\<lparr>controlPoints := cps\<rparr>"
  shows "only_points s W (update_node s f W)"
proof -
  obtain cps where "f (scene W ! s) = (scene W ! s)\<lparr>controlPoints := cps\<rparr>"
    using assms by blast
  then show ?thesis
    unfolding only_points_def update_node_def by auto
qed

lemma only_points_flag: "only_points s W (W\<lparr>updatingSeedNodes := b\<rparr>)"
  unfolding only_points_def
  by (intro conjI exI [of _ "controlPoints (scene W ! s)"]) simp_all

lemma only_points_initializeSeedNode: "only_points s W (snd (initializeSeedNode W s))"
  unfolding initializeSeedNode_def Let_def
  by (auto simp: only_points_refl AddControlPoint_def split: sum.splits
      intro!: only_points_update)

lemma only_points_seedPosition_loop:
  "only_points s W (snd (seedPosition_loop W s r role js))"
proof (induction js arbitrary: W)
  case Nil
  show ?case by (simp add: only_points_refl)
next
  case (Cons i js)
  have u: "only_points s W (update_node s (SetNthControlPointPosition i q) W)" for q
    by (rule only_points_update) (auto simp: SetNthControlPointPosition_def)
  show ?case
    by (auto simp: Let_def only_points_refl split: sum.splits
        intro: Cons.IH only_points_trans [OF u Cons.IH])
qed

lemma only_points_updateRelativeSeedPosition:
  "only_points s W (snd (updateRelativeSeedPosition W s r role))"
  unfolding updateRelativeSeedPosition_def
  by (auto simp: only_points_refl only_points_seedPosition_loop split: option.splits prod.splits
      intro: only_points_trans [OF _ only_points_seedPosition_loop]
        only_points_initializeSeedNode [THEN only_points_trans]
      dest: arg_cong [where f = snd])


lemma only_points_relativeNodes_loop:
  "only_points s W (snd (relativeNodes_loop W s role rs))"
proof (induction rs arbitrary: W)
  case Nil
  show ?case by (simp add: only_points_refl)
next
  case (Cons r rs)
  obtain e W1 where u: "updateRelativeSeedPosition W s r role = (e, W1)"
    by (cases "updateRelativeSeedPosition W s r role")
  have f: "only_points s W W1"
    using only_points_updateRelativeSeedPosition [of s W r role] by (simp add: u)
  show ?case
    using f only_points_trans [OF f Cons.IH [of W1]]
    by (cases e) (simp_all add: u)
qed

lemma only_points_relativeRoles_loop:
  "only_points s W (snd (relativeRoles_loop W s roles))"
proof (induction roles arbitrary: W)
  case Nil
  show ?case by (simp add: only_points_refl)
next
  case (Cons role roles)
  obtain e W1 where u:
    "relativeNodes_loop W s role (getRelativeNodesOfRole W (Some s) role) = (e, W1)"
    by (cases "relativeNodes_loop W s role (getRelativeNodesOfRole W (Some s) role)")
  have f: "only_points s W W1"
    using only_points_relativeNodes_loop [of s W role "getRelativeNodesOfRole W (Some s) role"]
    by (simp add: u)
  show ?case
    using f only_points_trans [OF f Cons.IH [of W1]]
    by (cases e) (simp_all add: u)
qed

lemma only_points_snapSeedsToSurface: "only_points s W (snapSeedsToSurface W s)"
  unfolding snapSeedsToSurface_def
  by (auto simp: only_points_refl split: option.splits intro!: only_points_update)

lemma only_points_updateRelativeSeedNode:
  "only_points s W (snd (updateRelativeSeedNode W (Some s)))"
proof -
  let ?W1 = "W\<lparr>updatingSeedNodes := True\<rparr>"
  obtain e W2 where i: "initializeSeedNode ?W1 s = (e, W2)"
    by (cases "initializeSeedNode ?W1 s")
  obtain e3 W3 where l: "relativeRoles_loop W2 s RELATIVE_SEED_ROLES = (e3, W3)"
    by (cases "relativeRoles_loop W2 s RELATIVE_SEED_ROLES")
  obtain e3' W3' where l': "relativeRoles_loop ?W1 s RELATIVE_SEED_ROLES = (e3', W3')"
    by (cases "relativeRoles_loop ?W1 s RELATIVE_SEED_ROLES")
  have f1: "only_points s W ?W1" by (rule only_points_flag)
  have f2: "only_points s W W2"
    using only_points_trans [OF f1 only_points_initializeSeedNode [of s ?W1]] by (simp add: i)
  have f3: "only_points s W W3"
    using only_points_trans [OF f2 only_points_relativeRoles_loop [of s W2 RELATIVE_SEED_ROLES]]
    by (simp add: l)
  have f3': "only_points s W W3'"
    using only_points_trans [OF f1 only_points_relativeRoles_loop [of s ?W1 RELATIVE_SEED_ROLES]]
    by (simp add: l')
  have f4: "only_points s W ((snapSeedsToSurface X s)\<lparr>updatingSeedNodes := b\<rparr>)"
    if "only_points s W X" for X b
    using only_points_trans [OF that only_points_trans [OF only_points_snapSeedsToSurface only_points_flag]]
    by simp
  show ?thesis
    unfolding updateRelativeSeedNode_def
    using f2 f3 f3' f4 [OF f3] f4 [OF f3']
    by (auto simp: Let_def i l l' only_points_refl split: option.splits)
qed

lemma only_points_static:
  assumes "only_points s W W'"
  shows "length (scene W') = length (scene W)"
    and "className (scene W' ! i) = className (scene W ! i)"
    and "curvePoints (scene W' ! i) = curvePoints (scene W ! i)"
    and "references (scene W' ! i) = references (scene W ! i)"
    and "attributes (scene W' ! i) = attributes (scene W ! i)"
    and "polyData (scene W' ! i) = polyData (scene W ! i)"
    and "i \<noteq> s \<Longrightarrow> scene W' ! i = scene W ! i"
proof -
  obtain a where a: "scene W' = (scene W)[s := (scene W ! s)\<lparr>controlPoints := a\<rparr>]"
    using assms unfolding only_points_def by blast
  show "length (scene W') = length (scene W)" by (simp add: a)
  have n: "scene W' ! i = (if i = s \<and> s < length (scene W)
             then (scene W ! s)\<lparr>controlPoints := a\<rparr> else scene W ! i)"
    by (cases "s < length (scene W)") (simp_all add: a nth_list_update list_update_beyond)
  show "className (scene W' ! i) = className (scene W ! i)" by (simp add: n)
  show "curvePoints (scene W' ! i) = curvePoints (scene W ! i)" by (simp add: n)
  show "references (scene W' ! i) = references (scene W ! i)" by (simp add: n)
  show "attributes (scene W' ! i) = attributes (scene W ! i)" by (simp add: n)
  show "polyData (scene W' ! i) = polyData (scene W ! i)" by (simp add: n)
  show "i \<noteq> s \<Longrightarrow> scene W' ! i = scene W ! i" by (simp add: n)
qed

lemma constraints_ok_only_points:
  assumes "only_points s W W'" and "constraints_ok W s"
  shows "constraints_ok W' s"
  using assms(2) unfolding constraints_ok_def
  by (simp add: only_points_static [OF assms(1)])

lemma referencePoint_ok:
  assumes "IsA (className n) vtkMRMLMarkupsCurveNode \<longrightarrow> curvePoints n \<noteq> None"
  shows "\<exists>c. referencePoint n role p = Inr c"
proof -
  have "\<not> isl (referencePoint n role p)"
    using assms
    by (cases "directionVector_of role p"; cases "curvePoints n")
       (simp_all add: referencePoint_def getClosestPointOnCurveAlongLine_def)
  then show ?thesis
  proof (cases "referencePoint n role p")
    case (Inl a)
    assume "\<not> isl (referencePoint n role p)"
    with Inl show ?thesis by simp
  next
    case (Inr b)
    then show ?thesis by blast
  qed
qed

lemma seedPosition_loop_ok:
  assumes "IsA (className (scene W ! r)) vtkMRMLMarkupsCurveNode
             \<longrightarrow> curvePoints (scene W ! r) \<noteq> None"
  shows "fst (seedPosition_loop W s r role js) = None \<and>
         length (controlPoints (scene (snd (seedPosition_loop W s r role js)) ! s))
           = length (controlPoints (scene W ! s))"
  using assms
proof (induction js arbitrary: W)
  case Nil
  show ?case by simp
next
  case (Cons i js)
  let ?p = "controlPoints (scene W ! s) ! i"
  obtain c where c: "referencePoint (scene W ! r) role ?p = Inr c"
    using referencePoint_ok [OF Cons.prems] by blast
  let ?W2 = "update_node s (SetNthControlPointPosition i (correctedSeedPoint role ?p c)) W"
  have u: "only_points s W ?W2"
    by (rule only_points_update) (auto simp: SetNthControlPointPosition_def)
  have ok2: "IsA (className (scene ?W2 ! r)) vtkMRMLMarkupsCurveNode
               \<longrightarrow> curvePoints (scene ?W2 ! r) \<noteq> None"
    using Cons.prems by (simp add: only_points_static [OF u])
  have len: "length (controlPoints (scene ?W2 ! s)) = length (controlPoints (scene W ! s))"
    by (cases "s < length (scene W)")
       (simp_all add: update_node_def SetNthControlPointPosition_def list_update_beyond)
  show ?case
    using Cons.IH [OF Cons.prems] Cons.IH [OF ok2] len
    by (simp add: c Let_def)
qed

section \<open>The derivation of a seed\<close>

lemma getRelativeNodesOfRole_ok:
  assumes "constraints_ok W s" and "role \<in> set RELATIVE_SEED_ROLES"
  shows "getRelativeNodesOfRole W (Some s) role =
           map Some (references (scene W ! s) (referenceRole role))"
  using assms unfolding constraints_ok_def getRelativeNodesOfRole_def GetNodeReferences_def
  by (auto intro!: map_cong)

lemma relativeNodes_ok:
  assumes "constraints_ok W s"
  shows "concat (map (getRelativeNodesOfRole W (Some s)) RELATIVE_SEED_ROLES) =
           map Some (concat (map (\<lambda>role. references (scene W ! s) (referenceRole role))
                               RELATIVE_SEED_ROLES))"
proof -
  have "map (getRelativeNodesOfRole W (Some s)) RELATIVE_SEED_ROLES =
          map (\<lambda>role. map Some (references (scene W ! s)
                                  (referenceRole role))) RELATIVE_SEED_ROLES"
    by (rule map_cong [OF refl]) (rule getRelativeNodesOfRole_ok [OF assms])
  then show ?thesis by (simp only: map_concat map_map comp_def)
qed

lemma initializeSeedNode_ok:
  assumes "constraints_ok W s" and "s < length (scene W)"
    and "concat (map (\<lambda>role. references (scene W ! s) (referenceRole role))
                   RELATIVE_SEED_ROLES) \<noteq> []"
  shows "fst (initializeSeedNode W s) = None \<and>
         length (controlPoints (scene (snd (initializeSeedNode W s)) ! s))
           = Suc (length (controlPoints (scene W ! s)))"
  using assms(2,3)
  unfolding initializeSeedNode_def Let_def relativeNodes_ok [OF assms(1)] seedPoint_loop_sum
  by (simp add: update_node_def AddControlPoint_def)

lemma updateRelativeSeedPosition_ok:
  assumes "IsA (className (scene W ! r)) vtkMRMLMarkupsCurveNode
             \<longrightarrow> curvePoints (scene W ! r) \<noteq> None"
    and "controlPoints (scene W ! s) \<noteq> []"
  shows "fst (updateRelativeSeedPosition W s (Some r) role) = None \<and>
         length (controlPoints (scene (snd (updateRelativeSeedPosition W s (Some r) role)) ! s))
           = length (controlPoints (scene W ! s))"
  using assms(2) seedPosition_loop_ok [OF assms(1)]
  by (simp add: updateRelativeSeedPosition_def)

lemma relativeNodes_loop_ok:
  assumes "\<forall>r \<in> set rs. IsA (className (scene W ! r)) vtkMRMLMarkupsCurveNode
             \<longrightarrow> curvePoints (scene W ! r) \<noteq> None"
    and "controlPoints (scene W ! s) \<noteq> []"
  shows "fst (relativeNodes_loop W s role (map Some rs)) = None \<and>
         length (controlPoints (scene (snd (relativeNodes_loop W s role (map Some rs))) ! s))
           = length (controlPoints (scene W ! s))"
  using assms
proof (induction rs arbitrary: W)
  case Nil
  show ?case by simp
next
  case (Cons r rs)
  obtain e W1 where u: "updateRelativeSeedPosition W s (Some r) role = (e, W1)"
    by (cases "updateRelativeSeedPosition W s (Some r) role")
  have ok: "e = None" "length (controlPoints (scene W1 ! s)) = length (controlPoints (scene W ! s))"
    using updateRelativeSeedPosition_ok [of W r s role] Cons.prems by (simp_all add: u)
  have f: "only_points s W W1"
    using only_points_updateRelativeSeedPosition [of s W "Some r" role] by (simp add: u)
  have p1: "\<forall>r \<in> set rs. IsA (className (scene W1 ! r)) vtkMRMLMarkupsCurveNode
             \<longrightarrow> curvePoints (scene W1 ! r) \<noteq> None"
    using Cons.prems(1) by (simp add: only_points_static [OF f])
  have p2: "controlPoints (scene W1 ! s) \<noteq> []"
    using ok(2) Cons.prems(2) by auto
  show ?case
    using Cons.IH [OF p1 p2] ok by (simp add: u)
qed

lemma relativeRoles_loop_ok:
  assumes "constraints_ok W s" and "set roles \<subseteq> set RELATIVE_SEED_ROLES"
    and "controlPoints (scene W ! s) \<noteq> []"
  shows "fst (relativeRoles_loop W s roles) = None \<and>
         length (controlPoints (scene (snd (relativeRoles_loop W s roles)) ! s))
           = length (controlPoints (scene W ! s))"
  using assms
proof (induction roles arbitrary: W)
  case Nil
  show ?case by simp
next
  case (Cons role roles)
  let ?rs = "references (scene W ! s) (referenceRole role)"
  have role: "role \<in> set RELATIVE_SEED_ROLES" using Cons.prems(2) by simp
  have g: "getRelativeNodesOfRole W (Some s) role = map Some ?rs"
    by (rule getRelativeNodesOfRole_ok [OF Cons.prems(1) role])
  have c: "\<forall>r \<in> set ?rs. IsA (className (scene W ! r)) vtkMRMLMarkupsCurveNode
             \<longrightarrow> curvePoints (scene W ! r) \<noteq> None"
    using Cons.prems(1) role unfolding constraints_ok_def by blast
  obtain e W1 where u: "relativeNodes_loop W s role (map Some ?rs) = (e, W1)"
    by (cases "relativeNodes_loop W s role (map Some ?rs)")
  have ok: "e = None" "length (controlPoints (scene W1 ! s)) = length (controlPoints (scene W ! s))"
    using relativeNodes_loop_ok [OF c Cons.prems(3), of role] by (simp_all add: u)
  have f: "only_points s W W1"
    using only_points_relativeNodes_loop [of s W role "map Some ?rs"] by (simp add: u)
  have p1: "constraints_ok W1 s" by (rule constraints_ok_only_points [OF f Cons.prems(1)])
  have p2: "set roles \<subseteq> set RELATIVE_SEED_ROLES" using Cons.prems(2) by simp
  have p3: "controlPoints (scene W1 ! s) \<noteq> []" using ok(2) Cons.prems(3) by auto
  show ?case
    using Cons.IH [OF p1 p2 p3] ok by (simp add: g u)
qed

lemma snapSeedsToSurface_length:
  "length (controlPoints (scene (snapSeedsToSurface W s) ! s)) = length (controlPoints (scene W ! s))"
  by (cases "s < length (scene W)")
     (simp_all add: snapSeedsToSurface_def update_node_def list_update_beyond split: option.splits)

lemma derivation_places_point:
  assumes "s < length (scene W)"
    and "attributes (scene W ! s) MANUALLY_PLACED_ATTRIBUTE_NAME = Some ''FALSE''"
    and "controlPoints (scene W ! s) = []"
    and "constraints_ok W s"
    and "concat (map (\<lambda>role. references (scene W ! s) (referenceRole role))
                   RELATIVE_SEED_ROLES) \<noteq> []"
  shows "fst (updateRelativeSeedNode W (Some s)) = None \<and>
         length (controlPoints (scene (snd (updateRelativeSeedNode W (Some s))) ! s)) = 1"
proof -
  let ?W1 = "W\<lparr>updatingSeedNodes := True\<rparr>"
  have c1: "constraints_ok ?W1 s" using assms(4) by (simp add: constraints_ok_def)
  obtain e W2 where i: "initializeSeedNode ?W1 s = (e, W2)"
    by (cases "initializeSeedNode ?W1 s")
  have s1: "s < length (scene ?W1)" using assms(1) by simp
  have r1: "concat (map (\<lambda>role. references (scene ?W1 ! s) (referenceRole role))
                      RELATIVE_SEED_ROLES) \<noteq> []"
    using assms(5) by simp
  have i_ok: "e = None" "length (controlPoints (scene W2 ! s)) = 1"
    using initializeSeedNode_ok [OF c1 s1 r1] assms(3) by (simp_all add: i)
  have f2: "only_points s ?W1 W2"
    using only_points_initializeSeedNode [of s ?W1] by (simp add: i)
  have c2: "constraints_ok W2 s" by (rule constraints_ok_only_points [OF f2 c1])
  have n2: "controlPoints (scene W2 ! s) \<noteq> []" using i_ok(2) by auto
  obtain e3 W3 where l: "relativeRoles_loop W2 s RELATIVE_SEED_ROLES = (e3, W3)"
    by (cases "relativeRoles_loop W2 s RELATIVE_SEED_ROLES")
  have l_ok: "e3 = None" "length (controlPoints (scene W3 ! s)) = 1"
    using relativeRoles_loop_ok [OF c2 subset_refl n2] i_ok(2) by (simp_all add: l)
  have "length (controlPoints (scene ((snapSeedsToSurface W3 s)\<lparr>updatingSeedNodes := b\<rparr>) ! s)) = 1"
    for b using snapSeedsToSurface_length [of W3 s] l_ok(2) by simp
  then show ?thesis
    using assms(2,3) i_ok(1) l_ok(1)
    by (simp add: updateRelativeSeedNode_def Let_def i l)
qed

section \<open>Manually placed seeds\<close>

lemma removed_all_points_scene:
  assumes "s < length (scene W)"
  shows "scene (removed_all_points W s) =
           (scene W)[s := (scene W ! s)\<lparr>controlPoints := [],
              attributes := (attributes (scene W ! s))(MANUALLY_PLACED_ATTRIBUTE_NAME \<mapsto> ''FALSE'')\<rparr>]"
  using assms
  by (simp add: removed_all_points_def onSeedRemoved_def update_node_def
      RemoveAllControlPoints_def SetAttribute_def)

lemma removed_all_points_constraints_ok:
  assumes "s < length (scene W)" and "constraints_ok W s"
  shows "constraints_ok (removed_all_points W s) s"
  using assms unfolding constraints_ok_def
  by (simp add: removed_all_points_scene nth_list_update)

lemma updateRelativeSeedNode_keeps_manual:
  assumes "attributes (scene W ! s) MANUALLY_PLACED_ATTRIBUTE_NAME = Some ''TRUE''"
  shows "scene (snd (updateRelativeSeedNode W seedNode)) ! s = scene W ! s"
proof (cases seedNode)
  case None
  then show ?thesis by (simp add: updateRelativeSeedNode_def)
next
  case (Some s')
  show ?thesis
  proof (cases "s' = s")
    case True
    then show ?thesis using assms Some by (simp add: updateRelativeSeedNode_def)
  next
    case False
    then have "s \<noteq> s'" by simp
    from only_points_static(7) [OF only_points_updateRelativeSeedNode this]
    show ?thesis by (simp add: Some)
  qed
qed

lemma seedNodes_loop_keeps_manual:
  assumes "attributes (scene W ! s) MANUALLY_PLACED_ATTRIBUTE_NAME = Some ''TRUE''"
  shows "scene (snd (seedNodes_loop W seedNodes)) ! s = scene W ! s"
  using assms
proof (induction seedNodes arbitrary: W)
  case Nil
  show ?case by simp
next
  case (Cons seedNode seedNodes)
  obtain e W1 where u: "updateRelativeSeedNode W seedNode = (e, W1)"
    by (cases "updateRelativeSeedNode W seedNode")
  have k: "scene W1 ! s = scene W ! s"
    using updateRelativeSeedNode_keeps_manual [OF Cons.prems, of seedNode] by (simp add: u)
  then have "attributes (scene W1 ! s) MANUALLY_PLACED_ATTRIBUTE_NAME = Some ''TRUE''"
    using Cons.prems by simp
  from Cons.IH [OF this] show ?case
    using k by (cases e) (simp_all add: u)
qed

text \<open>
  Claim C6.  While the manually-placed flag of a seed is TRUE, \<^verbatim>\<open>updateRelativeSeedNode\<close>
  changes nothing, and the update of all seeds of an edited marker
  (\<^verbatim>\<open>updateRelativeSeedsForMarkup\<close>) leaves the seed as it is; a point-removed event
  that leaves the seed with a control point does not touch the flag.  Once all control points of the seed are removed the flag is FALSE
  and the derivation runs again: for a seed with at least one constraint, all of them
  resolving to nodes of the scene (a curve with a discretisation), it returns normally
  and the seed has exactly one control point afterwards.
\<close>

theorem manual_seed_frozen_until_reset:
  "(attributes (scene W ! s) MANUALLY_PLACED_ATTRIBUTE_NAME = Some ''TRUE''
      \<longrightarrow> updateRelativeSeedNode W (Some s) = (None, W) \<and>
          scene (snd (updateRelativeSeedsForMarkup W markupNode)) ! s = scene W ! s) \<and>
   (controlPoints (scene W ! s) \<noteq> [] \<longrightarrow> onSeedRemoved W (Some s) = W) \<and>
   (s < length (scene W) \<and> constraints_ok W s \<and>
    concat (map (\<lambda>role. references (scene W ! s) (referenceRole role)) RELATIVE_SEED_ROLES) \<noteq> []
      \<longrightarrow> attributes (scene (removed_all_points W s) ! s) MANUALLY_PLACED_ATTRIBUTE_NAME
            = Some ''FALSE'' \<and>
          fst (updateRelativeSeedNode (removed_all_points W s) (Some s)) = None \<and>
          length (controlPoints
                    (scene (snd (updateRelativeSeedNode (removed_all_points W s) (Some s))) ! s))
            = 1)"
proof (intro conjI impI)
  assume "attributes (scene W ! s) MANUALLY_PLACED_ATTRIBUTE_NAME = Some ''TRUE''"
  then show "updateRelativeSeedNode W (Some s) = (None, W)"
    by (simp add: updateRelativeSeedNode_def)
next
  assume "attributes (scene W ! s) MANUALLY_PLACED_ATTRIBUTE_NAME = Some ''TRUE''"
  then show "scene (snd (updateRelativeSeedsForMarkup W markupNode)) ! s = scene W ! s"
    by (cases markupNode)
       (simp_all add: updateRelativeSeedsForMarkup_def seedNodes_loop_keeps_manual)
next
  assume "controlPoints (scene W ! s) \<noteq> []"
  then show "onSeedRemoved W (Some s) = W"
    by (simp add: onSeedRemoved_def)
next
  assume h: "s < length (scene W) \<and> constraints_ok W s \<and>
    concat (map (\<lambda>role. references (scene W ! s) (referenceRole role)) RELATIVE_SEED_ROLES) \<noteq> []"
  let ?W = "removed_all_points W s"
  have l: "s < length (scene ?W)" using h by (simp add: removed_all_points_scene)
  have a: "attributes (scene ?W ! s) MANUALLY_PLACED_ATTRIBUTE_NAME = Some ''FALSE''"
    using h by (simp add: removed_all_points_scene)
  have p: "controlPoints (scene ?W ! s) = []"
    using h by (simp add: removed_all_points_scene)
  have c: "constraints_ok ?W s"
    using h by (simp add: removed_all_points_constraints_ok)
  have r: "concat (map (\<lambda>role. references (scene ?W ! s) (referenceRole role))
                     RELATIVE_SEED_ROLES) \<noteq> []"
    using h by (simp add: removed_all_points_scene)
  show "attributes (scene ?W ! s) MANUALLY_PLACED_ATTRIBUTE_NAME = Some ''FALSE''"
    by (rule a)
  show "fst (updateRelativeSeedNode ?W (Some s)) = None"
    using derivation_places_point [OF l a p c r] by simp
  show "length (controlPoints (scene (snd (updateRelativeSeedNode ?W (Some s))) ! s)) = 1"
    using derivation_places_point [OF l a p c r] by simp
qed

lemma manual_world_scene:
  "scene manual_world =
     [(new_node vtkMRMLMarkupsFiducialNode ''P_SeedPoints'')
        \<lparr>references := (\<lambda>_. [])(''Relative.anterior_of'' := [1]), controlPoints := [(7, 7, 7)],
         attributes := [MANUALLY_PLACED_ATTRIBUTE_NAME \<mapsto> ''TRUE'']\<rparr>,
      (new_node vtkMRMLMarkupsPlaneNode ''A'')
        \<lparr>controlPoints := [(0, 3, 0)], closestPointOnPlane := (\<lambda>q. vec_upd q 1 3)\<rparr>]"
  by (simp add: manual_world_def anterior_plane_world_def update_node_def SetAttribute_def
      new_node_def)

theorem manual_seed_frozen_until_reset_witness:
  "controlPoints (scene (snd (updateRelativeSeedNode manual_world (Some 0))) ! 0) = [(7, 7, 7)] \<and>
   attributes (scene (removed_all_points manual_world 0) ! 0) MANUALLY_PLACED_ATTRIBUTE_NAME
     = Some ''FALSE'' \<and>
   length (controlPoints
             (scene (snd (updateRelativeSeedNode (removed_all_points manual_world 0) (Some 0))) ! 0))
     = 1"
proof -
  have t: "attributes (scene manual_world ! 0) MANUALLY_PLACED_ATTRIBUTE_NAME = Some ''TRUE''"
    by (simp add: manual_world_scene)
  have p: "controlPoints (scene manual_world ! 0) = [(7, 7, 7)]"
    by (simp add: manual_world_scene)
  have h: "0 < length (scene manual_world) \<and> constraints_ok manual_world 0 \<and>
    concat (map (\<lambda>role. references (scene manual_world ! 0) (referenceRole role))
              RELATIVE_SEED_ROLES) \<noteq> []"
    by (simp add: manual_world_scene constraints_ok_def RELATIVE_SEED_ROLES_def
        referenceRole_def new_node_def)
  show ?thesis
    using manual_seed_frozen_until_reset [of manual_world 0] t p h by simp
qed

section \<open>Running a boundary-cut job\<close>






section \<open>Looking markers up\<close>

lemma find_first_map:
  "find_first P xs k = find_first (\<lambda>b. b) (map P xs) k"
  by (induction xs arbitrary: k) simp_all

lemma find_first_cong:
  assumes "map P ys = map P xs"
  shows "find_first P ys k = find_first P xs k"
  using assms by (simp add: find_first_map [of P])

lemma find_first_append:
  "find_first P (xs @ ys) k =
     (case find_first P xs k of Some i \<Rightarrow> Some i | None \<Rightarrow> find_first P ys (k + length xs))"
  by (induction xs arbitrary: k) (simp_all split: option.splits)

lemma find_first_Some:
  assumes "find_first P xs k = Some i"
  shows "k \<le> i \<and> i < k + length xs \<and> P (xs ! (i - k))"
  using assms
proof (induction xs arbitrary: k)
  case Nil
  then show ?case by simp
next
  case (Cons x xs)
  show ?case
  proof (cases "P x")
    case True
    then show ?thesis using Cons.prems by auto
  next
    case False
    then have "find_first P xs (Suc k) = Some i" using Cons.prems by simp
    from Cons.IH [OF this] show ?thesis by (auto simp: nth_Cons')
  qed
qed

lemma getFirstNodeByClassByName_Some:
  assumes "getFirstNodeByClassByName sc cls name = Some i"
  shows "i < length sc" and "IsA (className (sc ! i)) cls" and "nodeName (sc ! i) = name"
  using find_first_Some [OF assms [unfolded getFirstNodeByClassByName_def]] by simp_all

lemma getFirstNodeByClassByName_append:
  "getFirstNodeByClassByName (sc @ [n]) cls name =
     (case getFirstNodeByClassByName sc cls name of
        Some i \<Rightarrow> Some i
      | None \<Rightarrow> if IsA (className n) cls \<and> nodeName n = name then Some (length sc) else None)"
  by (simp add: getFirstNodeByClassByName_def find_first_append del: IsA.simps
      split: option.splits)

lemma getFirstNodeByClassByName_update:
  assumes "className (f (sc ! j)) = className (sc ! j)"
    and "nodeName (f (sc ! j)) = nodeName (sc ! j)"
  shows "getFirstNodeByClassByName (sc[j := f (sc ! j)]) cls name
           = getFirstNodeByClassByName sc cls name"
  unfolding getFirstNodeByClassByName_def
proof (rule find_first_cong, rule nth_equalityI)
  let ?P = "\<lambda>n. IsA (className n) cls \<and> nodeName n = name"
  show "length (map ?P (sc[j := f (sc ! j)])) = length (map ?P sc)" by simp
  fix i
  assume "i < length (map ?P (sc[j := f (sc ! j)]))"
  then show "map ?P (sc[j := f (sc ! j)]) ! i = map ?P sc ! i"
    by (cases "i = j") (simp_all add: assms del: IsA.simps)
qed

lemma SetAttribute_static [simp]:
  "className (SetAttribute a v n) = className n"
  "nodeName (SetAttribute a v n) = nodeName n"
  "attributes (SetAttribute a v n) a = Some v"
  by (simp_all add: SetAttribute_def)

section \<open>Declaring markers\<close>






section \<open>The weighting function of curves\<close>

lemma IsA_curve_trans:
  assumes "IsA c cls" and "IsA cls vtkMRMLMarkupsCurveNode"
  shows "IsA c vtkMRMLMarkupsCurveNode"
  using assms by auto

lemma getFirstNodeByClassByName_prefix:
  assumes "getFirstNodeByClassByName sc cls name = Some j"
  shows "getFirstNodeByClassByName (sc @ [m]) cls name = Some j"
  using assms by (simp add: getFirstNodeByClassByName_append del: IsA.simps)

text \<open>A marker keeps its weighting when another node receives the same one.\<close>

lemma has_weighting_update:
  assumes "has_weighting W cls n w"
  shows "has_weighting (update_node i (SetAttribute ''DistanceWeightingFunction'' w) W) cls n w"
proof -
  obtain j where j: "getFirstNodeByClassByName (scene W) cls n = Some j"
    "attributes (scene W ! j) ''DistanceWeightingFunction'' = Some w"
    using assms by (auto simp: has_weighting_def split: option.splits)
  let ?sc = "(scene W)[i := SetAttribute ''DistanceWeightingFunction'' w (scene W ! i)]"
  have l: "getFirstNodeByClassByName ?sc cls n = Some j"
    using j(1) by (simp only: getFirstNodeByClassByName_update SetAttribute_static)
  have jl: "j < length (scene W)" by (rule getFirstNodeByClassByName_Some(1) [OF j(1)])
  have a: "attributes (?sc ! j) ''DistanceWeightingFunction'' = Some w"
    using j(2) jl by (cases "i = j") simp_all
  show ?thesis
    using l a by (simp add: has_weighting_def update_node_def)
qed

lemma has_weighting_add:
  assumes "has_weighting W cls n w"
  shows "has_weighting (W\<lparr>scene := scene W @ [new_node c m]\<rparr>) cls n w"
proof -
  obtain j where j: "getFirstNodeByClassByName (scene W) cls n = Some j"
    "attributes (scene W ! j) ''DistanceWeightingFunction'' = Some w"
    using assms by (auto simp: has_weighting_def split: option.splits)
  have jl: "j < length (scene W)" by (rule getFirstNodeByClassByName_Some(1) [OF j(1)])
  show ?thesis
    using getFirstNodeByClassByName_prefix [OF j(1)] j(2) jl
    by (simp add: has_weighting_def nth_append)
qed

lemma has_weighting_parameterNode [simp]:
  "has_weighting (update_parameterNode f W) cls n w = has_weighting W cls n w"
  by (simp add: has_weighting_def update_parameterNode_def split: option.splits)

lemma has_weighting_set:
  assumes "getFirstNodeByClassByName (scene W) cls n = Some i"
  shows "has_weighting (update_node i (SetAttribute ''DistanceWeightingFunction'' w) W) cls n w"
proof -
  let ?sc = "(scene W)[i := SetAttribute ''DistanceWeightingFunction'' w (scene W ! i)]"
  have l: "getFirstNodeByClassByName ?sc cls n = Some i"
    using assms by (simp only: getFirstNodeByClassByName_update SetAttribute_static)
  have il: "i < length (scene W)" by (rule getFirstNodeByClassByName_Some(1) [OF assms])
  show ?thesis
    using l il by (simp add: has_weighting_def update_node_def)
qed

lemma inputNodes_loop_weighting:
  assumes "IsA cls vtkMRMLMarkupsCurveNode"
    and "inputNodes_loop (Some w) cls names acc W = (Inr ids, W')"
    and "\<forall>n \<in> S. has_weighting W cls n w"
  shows "\<forall>n \<in> S \<union> set names. has_weighting W' cls n w"
  using assms(2,3)
proof (induction names arbitrary: acc W S)
  case Nil
  then show ?case by simp
next
  case (Cons name names)
  let ?set = "SetAttribute ''DistanceWeightingFunction'' w"
  let ?ref = "\<lambda>i. update_parameterNode (AddNodeReferenceID INPUT_MARKUPS_REFERENCE i)"
  show ?case
  proof (cases "getFirstNodeByClassByName (scene W) cls name")
    case (Some i)
    let ?W3 = "?ref i (update_node i ?set W)"
    have c: "IsA (className (scene W ! i)) vtkMRMLMarkupsCurveNode"
      by (rule IsA_curve_trans [OF getFirstNodeByClassByName_Some(2) [OF Some] assms(1)])
    have step: "inputNodes_loop (Some w) cls names (acc @ [i]) ?W3 = (Inr ids, W')"
      using Cons.prems(1) Some c by (simp add: Let_def del: IsA.simps)
    have inv: "\<forall>n \<in> insert name S. has_weighting ?W3 cls n w"
    proof
      fix n
      assume "n \<in> insert name S"
      then consider "n = name" | "n \<in> S" by auto
      then show "has_weighting ?W3 cls n w"
      proof cases
        case 1
        then show ?thesis using has_weighting_set [OF Some, of w] by simp
      next
        case 2
        then have "has_weighting W cls n w" using Cons.prems(2) by simp
        from has_weighting_update [OF this, of i] show ?thesis by simp
      qed
    qed
    show ?thesis using Cons.IH [OF step inv] by auto
  next
    case None
    let ?i = "length (scene W)"
    let ?W1 = "W\<lparr>scene := scene W @ [new_node cls name]\<rparr>"
    let ?W3 = "?ref ?i (update_node ?i ?set ?W1)"
    have l1: "getFirstNodeByClassByName (scene ?W1) cls name = Some ?i"
      using None
      by (simp add: getFirstNodeByClassByName_append new_node_def)
    have c: "IsA (className (scene ?W1 ! ?i)) vtkMRMLMarkupsCurveNode"
      by (rule IsA_curve_trans [OF getFirstNodeByClassByName_Some(2) [OF l1] assms(1)])
    have step: "inputNodes_loop (Some w) cls names (acc @ [?i]) ?W3 = (Inr ids, W')"
      using Cons.prems(1) None c by (simp add: Let_def AddNewNodeByClass_def del: IsA.simps)
    have inv: "\<forall>n \<in> insert name S. has_weighting ?W3 cls n w"
    proof
      fix n
      assume "n \<in> insert name S"
      then consider "n = name" | "n \<in> S" by auto
      then show "has_weighting ?W3 cls n w"
      proof cases
        case 1
        then show ?thesis using has_weighting_set [OF l1, of w] by simp
      next
        case 2
        then have "has_weighting W cls n w" using Cons.prems(2) by simp
        from has_weighting_update [OF has_weighting_add [OF this, of cls name], of ?i]
        show ?thesis by simp
      qed
    qed
    show ?thesis using Cons.IH [OF step inv] by auto
  qed
qed

lemma planeNames_of_names: "planeNames_of (map Name names) = Inr names"
  by (induction names) simp_all

lemma fold_update_static:
  assumes "\<And>n. className (f n) = className n"
    and "\<And>n. nodeName (f n) = nodeName n"
    and "\<And>n. attributes (f n) = attributes n"
  shows "map (\<lambda>n. (className n, nodeName n, attributes n))
           (scene (fold (\<lambda>c. update_node c f) ids W))
         = map (\<lambda>n. (className n, nodeName n, attributes n)) (scene W)"
proof (induction ids arbitrary: W)
  case Nil
  show ?case by simp
next
  case (Cons c ids)
  have "map (\<lambda>n. (className n, nodeName n, attributes n)) (scene (update_node c f W))
          = map (\<lambda>n. (className n, nodeName n, attributes n)) (scene W)"
  proof (rule nth_equalityI)
    show "length (map (\<lambda>n. (className n, nodeName n, attributes n)) (scene (update_node c f W)))
            = length (map (\<lambda>n. (className n, nodeName n, attributes n)) (scene W))"
      by (simp add: update_node_def)
    fix i
    assume "i < length (map (\<lambda>n. (className n, nodeName n, attributes n))
                         (scene (update_node c f W)))"
    then show "map (\<lambda>n. (className n, nodeName n, attributes n)) (scene (update_node c f W)) ! i
            = map (\<lambda>n. (className n, nodeName n, attributes n)) (scene W) ! i"
      by (cases "i = c") (simp_all add: update_node_def assms)
  qed
  then show ?case using Cons.IH [of "update_node c f W"] by simp
qed

lemma has_weighting_static:
  assumes "map (\<lambda>n. (className n, nodeName n, attributes n)) (scene W')
             = map (\<lambda>n. (className n, nodeName n, attributes n)) (scene W)"
  shows "has_weighting W' cls n w = has_weighting W cls n w"
proof -
  have len: "length (scene W') = length (scene W)"
    using arg_cong [OF assms, of length] by simp
  have nth: "className (scene W' ! i) = className (scene W ! i) \<and>
             nodeName (scene W' ! i) = nodeName (scene W ! i) \<and>
             attributes (scene W' ! i) = attributes (scene W ! i)" if "i < length (scene W)" for i
    using arg_cong [OF assms, of "\<lambda>xs. xs ! i"] that len by simp
  have "map (\<lambda>n. IsA (className n) cls \<and> nodeName n = n') (scene W')
          = map (\<lambda>n. IsA (className n) cls \<and> nodeName n = n') (scene W)" for n'
    by (rule nth_equalityI) (simp_all add: len nth del: IsA.simps)
  then have l: "getFirstNodeByClassByName (scene W') cls n = getFirstNodeByClassByName (scene W) cls n"
    unfolding getFirstNodeByClassByName_def by (rule find_first_cong)
  show ?thesis
  proof (cases "getFirstNodeByClassByName (scene W) cls n")
    case None
    then show ?thesis by (simp add: has_weighting_def l)
  next
    case (Some i)
    then show ?thesis
      using nth [OF getFirstNodeByClassByName_Some(1) [OF Some]]
      by (simp add: has_weighting_def l)
  qed
qed

lemma visit_Assign_curves_weighting:
  assumes "IsA cls vtkMRMLMarkupsCurveNode"
    and "visit_Assign_curves (Some w) W (List (map Name names)) cls = (None, W')"
  shows "\<forall>n \<in> set names. has_weighting W' cls n w"
proof -
  obtain r W1 where p: "inputNodes_loop (Some w) cls names [] W = (r, W1)"
    by (cases "inputNodes_loop (Some w) cls names [] W")
  obtain ids where r: "r = Inr ids"
    using assms(2) p
    by (cases r) (simp_all add: visit_Assign_curves_def process_InputNodes_def planeNames_of_names)
  have W': "W' = fold (\<lambda>c. update_node c SetCurveTypeToShortestDistanceOnSurface) ids W1"
    using assms(2) p r
    by (simp add: visit_Assign_curves_def process_InputNodes_def planeNames_of_names)
  have "\<forall>n \<in> {} \<union> set names. has_weighting W1 cls n w"
    by (rule inputNodes_loop_weighting [OF assms(1) p [unfolded r]]) simp
  moreover have "has_weighting W' cls n w = has_weighting W1 cls n w" for n
    unfolding W'
    by (rule has_weighting_static, rule fold_update_static)
       (simp_all add: SetCurveTypeToShortestDistanceOnSurface_def)
  ultimately show ?thesis by simp
qed

section \<open>Running a script\<close>

lemma visit_Assign_dwf:
  assumes "\<not> assigns_weighting (Assign lineno targets node)"
  shows "fst (snd (visit_Assign dwf W targets node)) = dwf"
proof (cases targets)
  case Nil
  then show ?thesis by (simp add: visit_Assign_def)
next
  case (Cons target ts)
  show ?thesis
  proof (cases ts)
    case (Cons t' ts')
    then show ?thesis using \<open>targets = target # ts\<close> by (simp add: visit_Assign_def)
  next
    case Nil
    show ?thesis
    proof (cases target)
      case (Name ident)
      then have "ident \<noteq> ''_DistanceWeightingFunction''"
        using assms Nil \<open>targets = target # ts\<close> by simp
      then show ?thesis
        using Name Nil \<open>targets = target # ts\<close>
        by (simp add: visit_Assign_def split: prod.splits sum.splits)
    qed (simp_all add: visit_Assign_def Nil \<open>targets = target # ts\<close>)
  qed
qed

lemma visit_stmt_dwf:
  assumes "\<not> assigns_weighting s"
  shows "fst (snd (visit_stmt dwf W s)) = dwf"
proof (cases s)
  case (Assign lineno targets node)
  then show ?thesis using assms visit_Assign_dwf by simp
next
  case (Expr lineno node)
  then show ?thesis by (simp split: sum.splits)
qed

lemma visit_Module_append:
  "visit_Module dwf W (xs @ ys) =
     (case visit_Module dwf W xs of
        (Some e, dwf1, W1) \<Rightarrow> (Some e, dwf1, W1)
      | (None, dwf1, W1) \<Rightarrow> visit_Module dwf1 W1 ys)"
proof (induction xs arbitrary: dwf W)
  case Nil
  show ?case by simp
next
  case (Cons x xs)
  obtain e d1 W1 where v: "visit_stmt dwf W x = (e, d1, W1)"
    by (cases "visit_stmt dwf W x")
  show ?case
    by (cases e) (simp_all add: v Cons.IH)
qed

lemma visit_Module_dwf:
  assumes "\<forall>s \<in> set body. \<not> assigns_weighting s"
  shows "fst (snd (visit_Module dwf W body)) = dwf"
  using assms
proof (induction body arbitrary: W)
  case Nil
  show ?case by simp
next
  case (Cons x xs)
  obtain e d1 W1 where v: "visit_stmt dwf W x = (e, d1, W1)"
    by (cases "visit_stmt dwf W x")
  have d: "d1 = dwf" using visit_stmt_dwf [of x dwf W] Cons.prems by (simp add: v)
  show ?case
    using Cons.IH [of W1] Cons.prems
    by (cases e) (simp_all add: v d)
qed

text \<open>
  Claim C8.  When a run reaches a \<^verbatim>\<open>_Curves\<close> or \<^verbatim>\<open>_ClosedCurves\<close> statement, every
  marker the statement names carries, right after it, the text of the most recent
  preceding \<^verbatim>\<open>_DistanceWeightingFunction\<close> assignment (no other assignment to the
  directive lies in between).  For the script of the example the run succeeds and, at
  its end, X carries "a" and Y carries "b", as the witness computes.
\<close>

theorem curves_receive_most_recent_weighting:
  assumes "visit_Module dwf0 W0
             (pre @ [Assign l1 [Name ''_DistanceWeightingFunction''] (Str w)] @ mid @
              [Assign l2 [Name directive] (List (map Name names))]) = (None, dwf', W')"
    and "directive = ''_Curves'' \<and> cls = vtkMRMLMarkupsCurveNode \<or>
         directive = ''_ClosedCurves'' \<and> cls = vtkMRMLMarkupsClosedCurveNode"
    and "\<forall>s \<in> set mid. \<not> assigns_weighting s"
  shows "\<forall>name \<in> set names. has_weighting W' cls name w"
proof -
  let ?set = "Assign l1 [Name ''_DistanceWeightingFunction''] (Str w)"
  let ?decl = "Assign l2 [Name directive] (List (map Name names))"
  obtain e1 d1 W1 where p: "visit_Module dwf0 W0 pre = (e1, d1, W1)"
    by (cases "visit_Module dwf0 W0 pre")
  have e1: "e1 = None"
    using assms(1) by (cases e1) (simp_all add: visit_Module_append [of _ _ pre] p)
  have r1: "visit_Module (Some w) W1 (mid @ [?decl]) = (None, dwf', W')"
    using assms(1) by (simp add: visit_Module_append [of _ _ pre] p e1 visit_Assign_def)
  obtain e2 d2 W2 where m: "visit_Module (Some w) W1 mid = (e2, d2, W2)"
    by (cases "visit_Module (Some w) W1 mid")
  have e2: "e2 = None"
    using r1 by (cases e2) (simp_all add: visit_Module_append [of _ _ mid] m)
  have d2: "d2 = Some w"
    using visit_Module_dwf [OF assms(3), of "Some w" W1] by (simp add: m)
  have r2: "visit_stmt (Some w) W2 ?decl = (None, dwf', W')"
    using r1 by (simp add: visit_Module_append [of _ _ mid] m e2 d2 split: prod.splits option.splits)
  have c: "IsA cls vtkMRMLMarkupsCurveNode" using assms(2) by auto
  have "visit_Assign_curves (Some w) W2 (List (map Name names)) cls = (None, W')"
    using r2 assms(2) by (auto simp: visit_Assign_def split: prod.splits)
  from visit_Assign_curves_weighting [OF c this] show ?thesis .
qed

lemma script_weighting_run:
  "fst (visit_Module None start_world script_weighting) = None"
  by (simp add: script_weighting_def start_world_def empty_world_def visit_Assign_def
      visit_Assign_curves_def process_InputNodes_def Let_def getFirstNodeByClassByName_def
      AddNewNodeByClass_def new_node_def update_node_def update_parameterNode_def
      SetAttribute_def AddNodeReferenceID_def SetCurveTypeToShortestDistanceOnSurface_def)

theorem curves_receive_most_recent_weighting_witness:
  "fst (parseParcellationString start_world (Some (Inr script_weighting))) = Returned True [] \<and>
   has_weighting (snd (parseParcellationString start_world (Some (Inr script_weighting))))
     vtkMRMLMarkupsCurveNode ''X'' ''a'' \<and>
   has_weighting (snd (parseParcellationString start_world (Some (Inr script_weighting))))
     vtkMRMLMarkupsCurveNode ''Y'' ''b''"
proof -
  let ?r = "visit_Module None start_world script_weighting"
  obtain d Wf where r: "?r = (None, d, Wf)"
    using script_weighting_run by (cases ?r) auto
  have s: "script_weighting =
             [Assign 1 [Name ''_DistanceWeightingFunction''] (Str ''a''),
              Assign 2 [Name ''_Curves''] (List [Name ''X''])] @
             [Assign 3 [Name ''_DistanceWeightingFunction''] (Str ''b'')] @ [] @
             [Assign 4 [Name ''_Curves''] (List (map Name [''Y'']))]"
    by (simp add: script_weighting_def)
  have y: "has_weighting Wf vtkMRMLMarkupsCurveNode ''Y'' ''b''"
    using curves_receive_most_recent_weighting
            [OF r [unfolded s], of vtkMRMLMarkupsCurveNode]
    by simp
  have "has_weighting (snd (snd ?r)) vtkMRMLMarkupsCurveNode ''X'' ''a''"
    by (simp add: has_weighting_def script_weighting_def start_world_def empty_world_def
      visit_Assign_def visit_Assign_curves_def process_InputNodes_def Let_def
      getFirstNodeByClassByName_def AddNewNodeByClass_def new_node_def update_node_def
      update_parameterNode_def SetAttribute_def AddNodeReferenceID_def
      SetCurveTypeToShortestDistanceOnSurface_def)
  then have x: "has_weighting Wf vtkMRMLMarkupsCurveNode ''X'' ''a''"
    by (simp add: r)
  have pn: "parameterNode start_world
              = Some (new_node vtkMRMLScriptedModuleNode ''NeuroSegmentParcellation'')"
    by (simp add: start_world_def empty_world_def)
  have p: "parseParcellationString start_world (Some (Inr script_weighting))
             = (Returned True [], Wf)"
    by (simp add: parseParcellationString_def pn r)
  show ?thesis using x y by (simp add: p)
qed

section \<open>Function calls in a script\<close>

lemma visit_Module_calls:
  assumes "\<forall>s \<in> set body. is_call_statement s"
  shows "visit_Module dwf W body = (None, dwf, W)"
  using assms
proof (induction body)
  case Nil
  show ?case by simp
next
  case (Cons s body)
  then have "is_call_statement s" by simp
  then obtain lineno func args where "s = Expr lineno (Call func args)"
    by (cases s rule: is_call_statement.cases) simp_all
  then show ?case using Cons by simp
qed

lemma visit_Assign_parcel_call:
  "fst (visit_Assign_parcel W ident (Call func args)) \<noteq> None"
  by (simp add: visit_Assign_parcel_def Let_def split: prod.splits option.splits)

lemma visit_Assign_call:
  assumes "ident \<notin> set directives"
  shows "fst (visit_Assign dwf W [Name ident] (Call func args)) \<noteq> None"
  using assms visit_Assign_parcel_call [of W ident func args]
  by (cases "visit_Assign_parcel W ident (Call func args)")
     (auto simp: visit_Assign_def directives_def)

lemma visit_Module_raises:
  assumes "\<And>dwf1 W1. visit_Module dwf W pre = (None, dwf1, W1)
             \<Longrightarrow> fst (visit_stmt dwf1 W1 s) \<noteq> None"
  shows "fst (visit_Module dwf W (pre @ s # post)) \<noteq> None"
proof -
  obtain e d1 W1 where p: "visit_Module dwf W pre = (e, d1, W1)"
    by (cases "visit_Module dwf W pre")
  show ?thesis
  proof (cases e)
    case (Some x)
    then show ?thesis by (simp add: visit_Module_append p)
  next
    case None
    obtain e2 d2 W2 where v: "visit_stmt d1 W1 s = (e2, d2, W2)"
      by (cases "visit_stmt d1 W1 s")
    have "e2 \<noteq> None" using assms [OF p [unfolded None]] by (simp add: v)
    then show ?thesis by (cases e2) (simp_all add: visit_Module_append p None v)
  qed
qed

text \<open>
  Claim C2, as amended.  Interpreting a script never crashes: every exception raised
  while visiting is caught and the run returns its success flag and message.  A bare
  function-call statement is ignored by the visitor: a script made of such statements
  only succeeds and changes nothing.  A parcel assignment whose value is a function
  call fails the run (the success flag is false), wherever it stands in the script.
\<close>

theorem parseParcellationString_call_handling:
  assumes "parameterNode W \<noteq> None"
  shows "((\<forall>s \<in> set body. is_call_statement s)
            \<longrightarrow> parseParcellationString W (Some (Inr body)) = (Returned True [], W)) \<and>
         (ident \<notin> set directives
            \<longrightarrow> (\<exists>m. fst (parseParcellationString W
                             (Some (Inr (pre @ Assign lineno [Name ident] (Call func args) # post))))
                       = Returned False m)) \<and>
         (\<exists>success m. fst (parseParcellationString W (Some query)) = Returned success m)"
proof (intro conjI impI)
  assume "\<forall>s \<in> set body. is_call_statement s"
  then show "parseParcellationString W (Some (Inr body)) = (Returned True [], W)"
    using assms by (auto simp: parseParcellationString_def visit_Module_calls)
next
  assume i: "ident \<notin> set directives"
  let ?body = "pre @ Assign lineno [Name ident] (Call func args) # post"
  have "fst (visit_Module None W ?body) \<noteq> None"
    by (rule visit_Module_raises) (simp add: visit_Assign_call [OF i])
  then have "fst (parseParcellationString W (Some (Inr ?body))) = Returned False []"
    using assms
    by (cases "visit_Module None W ?body")
       (auto simp: parseParcellationString_def)
  then show "\<exists>m. fst (parseParcellationString W (Some (Inr ?body))) = Returned False m"
    by blast
next
  show "\<exists>success m. fst (parseParcellationString W (Some query)) = Returned success m"
  proof (cases query)
    case (Inl e)
    then show ?thesis using assms by (auto simp: parseParcellationString_def)
  next
    case (Inr body)
    obtain e d W1 where "visit_Module None W body = (e, d, W1)"
      by (cases "visit_Module None W body")
    then show ?thesis using assms Inr
      by (cases e) (auto simp: parseParcellationString_def)
  qed
qed

theorem parseParcellationString_call_handling_witness:
  "parseParcellationString start_world (Some (Inr script_call)) = (Returned True [], start_world) \<and>
   (\<exists>m. fst (parseParcellationString start_world
               (Some (Inr ([] @ Assign 1 [Name ''P''] (Call (Name ''foo'') []) # []))))
         = Returned False m)"
proof -
  have p: "parameterNode start_world \<noteq> None"
    by (simp add: start_world_def empty_world_def)
  have c: "\<forall>s \<in> set script_call. is_call_statement s"
    by (simp add: script_call_def)
  have d: "''P'' \<notin> set directives"
    by (simp add: directives_def)
  show ?thesis
    using parseParcellationString_call_handling
            [OF p, of script_call "''P''" "[]" 1 "Name ''foo''" "[]" "[]"] c d
    by simp
qed

text \<open>
  Claim C2 as stated fails: the script \<^verbatim>\<open>foo()\<close> does not fail the run.  The handler
  \<^verbatim>\<open>visit_Call\<close> does nothing, so the run succeeds.
\<close>

theorem call_statement_does_not_fail_run:
  "fst (parseParcellationString start_world (Some (Inr script_call))) = Returned True []"
  by (simp add: parseParcellationString_def start_world_def empty_world_def script_call_def)

section \<open>Loading one script after another\<close>

lemmas interpreter_defs =
  loadQuery_def parseParcellationString_def start_world_def
  empty_world_def script_P_def script_Q_def visit_Assign_def visit_Assign_parcel_def
  process_InputNodes_def Let_def getFirstNodeByClassByName_def getNode_def
  AddNewNodeByClass_def new_node_def update_node_def update_parameterNode_def
  AddNodeReferenceID_def SetNodeReferenceID_def RemoveNodeReferenceIDs_def
  GetNodeReference_def GetNodeReferences_def SetToolName_def ContinuousUpdateOff_def

text \<open>
  Claim C3, on two scripts with disjoint parcel names.  Both loads succeed.  After the
  second load the input-marker and output-parcel references of the parameter node are
  those of the second script (the plane B, node 5, and the parcel Q, node 6), but its
  tool references are the jobs of both scripts: node 4, the job P_BoundaryCut of the
  first script, which still points at the parcel P (node 2), and node 8.  \<^verbatim>\<open>loadQuery\<close>
  removes the input-marker and output-parcel references only.
\<close>

theorem loadQuery_keeps_tool_references:
  "fst (loadQuery start_world (Inr script_P)) = Returned True [] \<and>
   fst (loadQuery after_P (Inr script_Q)) = Returned True [] \<and>
   map nodeName (scene after_P_then_Q) =
     [''ParcellationQuery'', ''A'', ''P'', ''P_SeedPoints'', ''P_BoundaryCut'',
      ''B'', ''Q'', ''Q_SeedPoints'', ''Q_BoundaryCut''] \<and>
   references (the (parameterNode after_P_then_Q)) INPUT_MARKUPS_REFERENCE = [5] \<and>
   references (the (parameterNode after_P_then_Q)) OUTPUT_MODEL_REFERENCE = [6] \<and>
   references (the (parameterNode after_P_then_Q)) TOOL_NODE_REFERENCE = [4, 8] \<and>
   references (scene after_P_then_Q ! 4) BOUNDARY_CUT_OUTPUT_MODEL_REFERENCE = [2]"
  by (simp add: after_P_then_Q_def after_P_def interpreter_defs)

end
